theory Spec2Isabelle
  imports Complex_Main
begin

section \<open>JavaScript values\<close>

text \<open>
  The wrapper handles values whose static type is \<open>unknown\<close>: thrown errors, model inputs
  and outputs, prediction records. They are modelled by a datatype of dynamic values.
  A number is an IEEE double; only its truthiness is ever inspected by the code
  (\<open>0\<close> and \<open>NaN\<close> are falsy), so the finite values are taken as reals.
\<close>

datatype jsnumber = Fin real | PosInf | NegInf | NaN

text \<open>
  An object is its property map; the flag says whether the object is an instance of
  \<open>Error\<close> (\<open>error instanceof Error\<close>). Named properties of arrays are not modelled.
\<close>

datatype jsval =
    JUndefined
  | JNull
  | JBool bool
  | JNum jsnumber
  | JStr string
  | JObj bool "string \<Rightarrow> jsval option"
  | JArr "jsval list"

type_synonym props = "string \<rightharpoonup> jsval"

text \<open>Truthiness, as used by \<open>if (x)\<close>, \<open>x && y\<close> and \<open>x || y\<close>.\<close>

fun truthy :: "jsval \<Rightarrow> bool" where
  "truthy JUndefined = False"
| "truthy JNull = False"
| "truthy (JBool b) = b"
| "truthy (JNum (Fin r)) = (r \<noteq> 0)"
| "truthy (JNum PosInf) = True"
| "truthy (JNum NegInf) = True"
| "truthy (JNum NaN) = False"
| "truthy (JStr s) = (s \<noteq> [])"
| "truthy (JObj e m) = True"
| "truthy (JArr xs) = True"

fun typeof :: "jsval \<Rightarrow> string" where
  "typeof JUndefined = ''undefined''"
| "typeof JNull = ''object''"
| "typeof (JBool b) = ''boolean''"
| "typeof (JNum n) = ''number''"
| "typeof (JStr s) = ''string''"
| "typeof (JObj e m) = ''object''"
| "typeof (JArr xs) = ''object''"

text \<open>\<open>a || b\<close> on dynamic values.\<close>

definition js_or :: "jsval \<Rightarrow> jsval \<Rightarrow> jsval" where
  "js_or a b = (if truthy a then a else b)"

text \<open>
  Property read \<open>v?.k\<close>: \<open>undefined\<close> when \<open>v\<close> is \<open>undefined\<close> or \<open>null\<close> or has no such
  property. The code reads \<open>v.k\<close> without \<open>?.\<close> only after checking that \<open>v\<close> is an object.
\<close>

fun get_prop :: "jsval \<Rightarrow> string \<Rightarrow> jsval" where
  "get_prop (JObj e m) k = (case m k of None \<Rightarrow> JUndefined | Some v \<Rightarrow> v)"
| "get_prop v k = JUndefined"

text \<open>Reading a key of a plain property map.\<close>

definition lookup :: "props \<Rightarrow> string \<Rightarrow> jsval" where
  "lookup m k = (case m k of None \<Rightarrow> JUndefined | Some v \<Rightarrow> v)"

text \<open>
  \<open>String(v)\<close>. The renderings of numbers, objects and arrays belong to the language and are
  taken as the parameter \<open>toStr\<close>.
\<close>

fun js_String :: "(jsval \<Rightarrow> string) \<Rightarrow> jsval \<Rightarrow> string" where
  "js_String toStr JUndefined = ''undefined''"
| "js_String toStr JNull = ''null''"
| "js_String toStr (JBool b) = (if b then ''true'' else ''false'')"
| "js_String toStr (JStr s) = s"
| "js_String toStr v = toStr v"

section \<open>types.ts\<close>

text \<open>
  An optional property of an object: either the object has no own key, or it has an own key
  that holds \<open>undefined\<close> (\<open>Own None\<close>) or a value. Reading a property does not tell the
  first two apart; spreading an object does.
\<close>

datatype 'a slot = Absent | Own "'a option"

fun slot_read :: "'a slot \<Rightarrow> 'a option" where
  "slot_read Absent = None"
| "slot_read (Own v) = v"

text \<open>\<open>{...a, ...b}\<close> at one key: every own key of \<open>b\<close> is copied, whatever it holds.\<close>

fun spread_slot :: "'a slot \<Rightarrow> 'a slot \<Rightarrow> 'a slot" where
  "spread_slot a Absent = a"
| "spread_slot a (Own v) = Own v"

text \<open>
  \<open>PostHogTrackingOptions\<close>. The interfaces that extend it are the record's extensions:
  the remaining keys of an options object are its \<open>more\<close> part.
\<close>

record PostHogTrackingOptions =
  posthogDistinctId :: "string slot"
  posthogTraceId :: "string slot"
  posthogProperties :: "props slot"
  posthogGroups :: "(string \<rightharpoonup> string) slot"
  posthogPrivacyMode :: "bool slot"

record CaptureOptions =
  model :: string
  latency :: jsnumber
  httpStatus :: jsnumber
  isError :: bool
  error :: jsval
  input :: jsval
  "output" :: jsval
  distinctId :: "string option"
  traceId :: "string option"
  customProperties :: "props option"
  groups :: "(string \<rightharpoonup> string) option"
  privacyMode :: "bool option"
  stream :: "bool option"
  predictionId :: jsval

definition PROVIDER :: string where "PROVIDER = ''replicate''"
definition BASE_URL :: string where "BASE_URL = ''https://api.replicate.com''"
definition EVENT_NAME :: string where "EVENT_NAME = ''$ai_generation''"

section \<open>The analytics collector\<close>

text \<open>
  The message handed to \<open>posthog.capture\<close>. The collector is the client of another package.
  It is modelled by the messages it was handed, oldest first, and by what its \<open>capture\<close> does
  with a message after those: it returns (\<open>None\<close>) or throws a value. A message counts as
  handed whether \<open>capture\<close> returns or throws.
\<close>

record EventMessage =
  msg_distinctId :: string
  msg_event :: string
  msg_properties :: props
  msg_groups :: "(string \<rightharpoonup> string) option"

record PostHog =
  handed :: "EventMessage list"
  refuses :: "EventMessage list \<Rightarrow> EventMessage \<Rightarrow> jsval option"

definition capture :: "PostHog \<Rightarrow> EventMessage \<Rightarrow> jsval option \<times> PostHog" where
  "capture ph m = (refuses ph (handed ph) m, ph\<lparr> handed := handed ph @ [m] \<rparr>)"

section \<open>capture.ts\<close>

definition formatInput :: "jsval \<Rightarrow> jsval" where
  "formatInput i = JArr [JObj False [''role'' \<mapsto> JStr ''user'', ''content'' \<mapsto> i]]"

definition formatOutput :: "jsval \<Rightarrow> jsval" where
  "formatOutput out = JArr [JObj False [''role'' \<mapsto> JStr ''assistant'', ''content'' \<mapsto> out]]"

definition formatError :: "(jsval \<Rightarrow> string) \<Rightarrow> jsval \<Rightarrow> jsval" where
  "formatError toStr err =
     (case err of
        JObj True m \<Rightarrow>
          JObj False [''name'' \<mapsto> get_prop err ''name'',
                      ''message'' \<mapsto> get_prop err ''message'',
                      ''stack'' \<mapsto> get_prop err ''stack'']
      | JStr s \<Rightarrow> JStr s
      | JObj False m \<Rightarrow> err
      | JArr xs \<Rightarrow> err
      | _ \<Rightarrow> JStr (js_String toStr err))"

text \<open>The property map of the event, built in the order of the source.\<close>

definition core_properties :: "CaptureOptions \<Rightarrow> props" where
  "core_properties options =
     [''$ai_provider'' \<mapsto> JStr PROVIDER,
      ''$ai_model'' \<mapsto> JStr (model options),
      ''$ai_latency'' \<mapsto> JNum (latency options),
      ''$ai_http_status'' \<mapsto> JNum (httpStatus options),
      ''$ai_base_url'' \<mapsto> JStr BASE_URL,
      ''$ai_is_error'' \<mapsto> JBool (isError options)]"

definition add_error :: "(jsval \<Rightarrow> string) \<Rightarrow> CaptureOptions \<Rightarrow> props \<Rightarrow> props" where
  "add_error toStr options properties =
     (if isError options \<and> truthy (error options)
      then properties(''$ai_error'' \<mapsto> formatError toStr (error options))
      else properties)"

definition add_input_output :: "CaptureOptions \<Rightarrow> props \<Rightarrow> props" where
  "add_input_output options properties =
     (if privacyMode options \<noteq> Some True then
        (let p1 = (if input options \<noteq> JUndefined
                   then properties(''$ai_input'' \<mapsto> formatInput (input options))
                   else properties)
         in if output options \<noteq> JUndefined
            then p1(''$ai_output_choices'' \<mapsto> formatOutput (output options))
            else p1)
      else properties)"

definition add_trace_id :: "CaptureOptions \<Rightarrow> props \<Rightarrow> props" where
  "add_trace_id options properties =
     (case traceId options of
        Some t \<Rightarrow> (if t \<noteq> [] then properties(''$ai_trace_id'' \<mapsto> JStr t) else properties)
      | None \<Rightarrow> properties)"

definition add_stream :: "CaptureOptions \<Rightarrow> props \<Rightarrow> props" where
  "add_stream options properties =
     (case stream options of
        Some b \<Rightarrow> properties(''$ai_stream'' \<mapsto> JBool b)
      | None \<Rightarrow> properties)"

definition add_prediction_id :: "CaptureOptions \<Rightarrow> props \<Rightarrow> props" where
  "add_prediction_id options properties =
     (if truthy (predictionId options)
      then properties(''$ai_prediction_id'' \<mapsto> predictionId options)
      else properties)"

text \<open>\<open>Object.assign(properties, options.customProperties)\<close>, guarded by its \<open>if\<close>.\<close>

definition add_custom :: "CaptureOptions \<Rightarrow> props \<Rightarrow> props" where
  "add_custom options properties =
     (case customProperties options of
        Some c \<Rightarrow> properties ++ c
      | None \<Rightarrow> properties)"

definition generated_properties :: "(jsval \<Rightarrow> string) \<Rightarrow> CaptureOptions \<Rightarrow> props" where
  "generated_properties toStr options =
     add_prediction_id options
       (add_stream options
         (add_trace_id options
           (add_input_output options
             (add_error toStr options (core_properties options)))))"

definition event_properties :: "(jsval \<Rightarrow> string) \<Rightarrow> CaptureOptions \<Rightarrow> props" where
  "event_properties toStr options = add_custom options (generated_properties toStr options)"

definition event_message :: "(jsval \<Rightarrow> string) \<Rightarrow> CaptureOptions \<Rightarrow> EventMessage" where
  "event_message toStr options =
     \<lparr> msg_distinctId =
         (case distinctId options of
            Some d \<Rightarrow> (if d \<noteq> [] then d else ''anonymous'')
          | None \<Rightarrow> ''anonymous''),
       msg_event = EVENT_NAME,
       msg_properties = event_properties toStr options,
       msg_groups = groups options \<rparr>"

definition captureGeneration ::
    "(jsval \<Rightarrow> string) \<Rightarrow> PostHog \<Rightarrow> CaptureOptions \<Rightarrow> jsval option \<times> PostHog" where
  "captureGeneration toStr posthog options = capture posthog (event_message toStr options)"

section \<open>The instrumented client\<close>

subsection \<open>Splitting the options\<close>

text \<open>
  \<open>extractPostHogParams\<close> destructures the five tracking keys and collects the rest. The
  object literal it returns has all five keys as own keys, each holding the value read from
  the options or \<open>undefined\<close>.
\<close>

definition extractPostHogParams ::
    "'m PostHogTrackingOptions_scheme \<Rightarrow> PostHogTrackingOptions \<times> 'm" where
  "extractPostHogParams options =
     (\<lparr> posthogDistinctId = Own (slot_read (posthogDistinctId options)),
        posthogTraceId = Own (slot_read (posthogTraceId options)),
        posthogProperties = Own (slot_read (posthogProperties options)),
        posthogGroups = Own (slot_read (posthogGroups options)),
        posthogPrivacyMode = Own (slot_read (posthogPrivacyMode options)) \<rparr>,
      PostHogTrackingOptions.more options)"

text \<open>The object \<open>{}\<close> at type \<open>PostHogTrackingOptions\<close>.\<close>

definition empty_params :: PostHogTrackingOptions where
  "empty_params =
     \<lparr> posthogDistinctId = Absent, posthogTraceId = Absent, posthogProperties = Absent,
       posthogGroups = Absent, posthogPrivacyMode = Absent \<rparr>"

text \<open>\<open>{ ...a, ...b }\<close> at type \<open>PostHogTrackingOptions\<close>.\<close>

definition spread_params ::
    "PostHogTrackingOptions \<Rightarrow> PostHogTrackingOptions \<Rightarrow> PostHogTrackingOptions" where
  "spread_params a b =
     \<lparr> posthogDistinctId = spread_slot (posthogDistinctId a) (posthogDistinctId b),
       posthogTraceId = spread_slot (posthogTraceId a) (posthogTraceId b),
       posthogProperties = spread_slot (posthogProperties a) (posthogProperties b),
       posthogGroups = spread_slot (posthogGroups a) (posthogGroups b),
       posthogPrivacyMode = spread_slot (posthogPrivacyMode a) (posthogPrivacyMode b) \<rparr>"

text \<open>\<open>Object.values(posthogParams).some(v => v !== undefined)\<close>.\<close>

definition some_defined :: "PostHogTrackingOptions \<Rightarrow> bool" where
  "some_defined p \<longleftrightarrow>
     slot_read (posthogDistinctId p) \<noteq> None \<or> slot_read (posthogTraceId p) \<noteq> None \<or>
     slot_read (posthogProperties p) \<noteq> None \<or> slot_read (posthogGroups p) \<noteq> None \<or>
     slot_read (posthogPrivacyMode p) \<noteq> None"

text \<open>\<open>{ ...posthogParams.posthogProperties }\<close>: spreading \<open>undefined\<close> copies nothing.\<close>

definition spread_properties :: "PostHogTrackingOptions \<Rightarrow> props" where
  "spread_properties p =
     (case slot_read (posthogProperties p) of None \<Rightarrow> Map.empty | Some c \<Rightarrow> c)"

subsection \<open>The underlying client and the wrapper's state\<close>

text \<open>
  The constructor replaces \<open>this.predictions.create\<close> and \<open>this.predictions.get\<close> by the
  tracked \<open>createPrediction\<close> and \<open>getPrediction\<close>, on the very instance on which the parent
  class's \<open>run\<close> and \<open>stream\<close> execute. The parent class belongs to another package; whatever
  it does, it does through the instance. So a parent \<open>run\<close> is modelled by what it does there:
  it returns, it throws, or it calls \<open>this.predictions.create\<close> or \<open>this.predictions.get\<close>
  (with some options, the call taking some time) and goes on with the answer.
\<close>

datatype parent_run =
    Return jsval
  | Raise jsval
  | Create "props PostHogTrackingOptions_scheme" jsnumber "jsval + jsval \<Rightarrow> parent_run"
  | Get string "props PostHogTrackingOptions_scheme option" jsnumber "jsval + jsval \<Rightarrow> parent_run"

text \<open>
  A chunk of the underlying stream, and the parent \<open>stream\<close>: it ends, it throws, it yields a
  chunk and goes on, or it calls \<open>this.predictions.create\<close> or \<open>this.predictions.get\<close> and
  goes on with the answer. A stream is finite.
\<close>

record chunk =
  event :: string
  data :: string
  id' :: "string option"

datatype upstream =
    Done
  | Throw jsval
  | Yield chunk upstream
  | CreateThen "props PostHogTrackingOptions_scheme" jsnumber "jsval + jsval \<Rightarrow> upstream"
  | GetThen string "props PostHogTrackingOptions_scheme option" jsnumber "jsval + jsval \<Rightarrow> upstream"

text \<open>
  The wrapper object. The client's original \<open>create\<close> and \<open>get\<close> answer with a value (\<open>Inr\<close>)
  or throw one (\<open>Inl\<close>); \<open>super_run\<close> and \<open>super_stream\<close> are the methods of the parent class.
  The keys of \<open>predictionTrackingParams\<close> are whatever \<open>prediction.id\<close> holds at run time.
\<close>

record PostHogReplicate =
  posthog :: PostHog
  originalPredictionsCreate :: "props \<Rightarrow> jsval + jsval"
  originalPredictionsGet :: "string \<Rightarrow> props option \<Rightarrow> jsval + jsval"
  predictionTrackingParams :: "jsval \<rightharpoonup> PostHogTrackingOptions"
  super_run :: "string \<Rightarrow> props \<Rightarrow> parent_run"
  super_stream :: "string \<Rightarrow> props \<Rightarrow> upstream"

subsection \<open>extractHttpStatus\<close>

text \<open>A value whose \<open>typeof\<close> is \<open>number\<close>, as that number.\<close>

definition as_number :: "jsval \<Rightarrow> jsnumber option" where
  "as_number v = (case v of JNum n \<Rightarrow> Some n | _ \<Rightarrow> None)"

definition extractHttpStatus :: "jsval \<Rightarrow> jsnumber option" where
  "extractHttpStatus err =
     (if truthy err \<and> typeof err = ''object'' then
        (case as_number (get_prop err ''status'') of
           Some n \<Rightarrow> Some n
         | None \<Rightarrow>
           (case as_number (get_prop err ''statusCode'') of
              Some n \<Rightarrow> Some n
            | None \<Rightarrow>
              (let response = get_prop err ''response'' in
               if truthy response \<and> typeof response = ''object'' then
                 (case as_number (get_prop response ''status'') of
                    Some n \<Rightarrow> Some n
                  | None \<Rightarrow> None)
               else None)))
      else None)"

text \<open>\<open>this.extractHttpStatus(err) || 500\<close>, the assignment of every \<open>catch\<close> block.\<close>

definition or_500 :: "jsnumber option \<Rightarrow> jsnumber" where
  "or_500 s = (case s of None \<Rightarrow> Fin 500 | Some n \<Rightarrow> (if truthy (JNum n) then n else Fin 500))"

definition catch_httpStatus :: "jsval \<Rightarrow> jsnumber" where
  "catch_httpStatus err = or_500 (extractHttpStatus err)"

subsection \<open>The \<open>finally\<close> block\<close>

text \<open>
  The local variables of a wrapper method when its \<open>finally\<close> block starts:
  \<open>(output, isError, error, httpStatus)\<close>, set by the \<open>try\<close> or the \<open>catch\<close> block.
\<close>

definition try_catch :: "jsval + jsval \<Rightarrow> jsval \<times> bool \<times> jsval \<times> jsnumber" where
  "try_catch r =
     (case r of
        Inr result \<Rightarrow> (result, False, JUndefined, Fin 200)
      | Inl err \<Rightarrow> (JUndefined, True, err, catch_httpStatus err))"

text \<open>
  The \<open>finally\<close> block of a wrapper method: the event is handed to the collector. The call
  of \<open>posthog.capture\<close> is not guarded, so when it throws, the value it throws replaces the
  pending return or throw of the method.
\<close>

definition finally_capture ::
    "(jsval \<Rightarrow> string) \<Rightarrow> PostHogReplicate \<Rightarrow> CaptureOptions \<Rightarrow> jsval + jsval \<Rightarrow>
     (jsval + jsval) \<times> PostHogReplicate" where
  "finally_capture toStr this options pending =
     (let (refused, posthog') = captureGeneration toStr (posthog this) options
      in (case refused of Some e \<Rightarrow> Inl e | None \<Rightarrow> pending, this\<lparr> posthog := posthog' \<rparr>))"

subsection \<open>predictions.create\<close>

definition create_options ::
    "(jsval \<Rightarrow> string) \<Rightarrow> PostHogTrackingOptions \<Rightarrow> props \<Rightarrow> jsval + jsval \<Rightarrow> jsnumber \<Rightarrow>
     CaptureOptions" where
  "create_options toStr posthogParams replicateOptions r elapsed =
     (let (prediction, isError', error', httpStatus') = try_catch r;
          model' = js_or (js_or (lookup replicateOptions ''model'')
                               (lookup replicateOptions ''version'')) (JStr ''unknown'')
      in
      \<lparr> model = js_String toStr model',
        latency = elapsed,
        httpStatus = httpStatus',
        isError = isError',
        error = error',
        input = lookup replicateOptions ''input'',
        output = JUndefined,
        distinctId = slot_read (posthogDistinctId posthogParams),
        traceId = slot_read (posthogTraceId posthogParams),
        customProperties =
          Some ((spread_properties posthogParams)(''$ai_async_prediction'' \<mapsto> JBool True)),
        groups = slot_read (posthogGroups posthogParams),
        privacyMode = slot_read (posthogPrivacyMode posthogParams),
        stream = None,
        predictionId = get_prop prediction ''id'' \<rparr>)"

text \<open>The \<open>try\<close> block after the underlying call answered: the tracking parameters are stored.\<close>

definition store_params ::
    "PostHogReplicate \<Rightarrow> jsval \<Rightarrow> PostHogTrackingOptions \<Rightarrow> PostHogReplicate" where
  "store_params this prediction posthogParams =
     (let predictionId' = get_prop prediction ''id'' in
      if truthy predictionId' \<and> some_defined posthogParams
      then this\<lparr> predictionTrackingParams :=
                    (predictionTrackingParams this)(predictionId' \<mapsto> posthogParams) \<rparr>
      else this)"

text \<open>
  \<open>elapsed\<close> is what the timer returns in the \<open>finally\<close> block. The result is what the caller
  gets (the returned value, or the thrown one) and the wrapper after the call.
\<close>

definition createPrediction ::
    "(jsval \<Rightarrow> string) \<Rightarrow> PostHogReplicate \<Rightarrow> props PostHogTrackingOptions_scheme \<Rightarrow> jsnumber \<Rightarrow>
     (jsval + jsval) \<times> PostHogReplicate" where
  "createPrediction toStr this options elapsed =
     (let (posthogParams, replicateOptions) = extractPostHogParams options;
          r = originalPredictionsCreate this replicateOptions;
          this1 = (case r of Inr result \<Rightarrow> store_params this result posthogParams
                   | Inl err \<Rightarrow> this)
      in finally_capture toStr this1
           (create_options toStr posthogParams replicateOptions r elapsed) r)"

subsection \<open>predictions.get\<close>

text \<open>
  \<open>PredictionGetOptions\<close> is the tracking options and a \<open>signal\<close>; \<open>options\<close> itself is
  optional. The parameters of the event are the stored ones spread together with the
  provided ones.
\<close>

definition merged_params ::
    "PostHogReplicate \<Rightarrow> string \<Rightarrow> props PostHogTrackingOptions_scheme option \<Rightarrow>
     PostHogTrackingOptions" where
  "merged_params this predictionId' options =
     (let storedParams = (case predictionTrackingParams this (JStr predictionId') of
                            Some p \<Rightarrow> p | None \<Rightarrow> empty_params);
          providedParams = (case options of
                              Some opts \<Rightarrow> fst (extractPostHogParams opts)
                            | None \<Rightarrow> empty_params)
      in spread_params storedParams providedParams)"

definition isCompleted :: "jsval \<Rightarrow> bool" where
  "isCompleted status \<longleftrightarrow>
     status = JStr ''succeeded'' \<or> status = JStr ''failed'' \<or> status = JStr ''canceled''"

definition get_options ::
    "(jsval \<Rightarrow> string) \<Rightarrow> string \<Rightarrow> PostHogTrackingOptions \<Rightarrow> jsval + jsval \<Rightarrow> jsnumber \<Rightarrow>
     CaptureOptions" where
  "get_options toStr predictionId' posthogParams r elapsed =
     (let (prediction, isError', error', httpStatus') = try_catch r;
          model' = js_or (js_or (get_prop prediction ''model'') (get_prop prediction ''version''))
                     (JStr ''unknown'');
          status = get_prop prediction ''status''
      in
      \<lparr> model = js_String toStr model',
        latency = elapsed,
        httpStatus = httpStatus',
        isError = (isError' \<or> status = JStr ''failed''),
        error = js_or error' (if status = JStr ''failed'' then get_prop prediction ''error''
                              else JUndefined),
        input = get_prop prediction ''input'',
        output = (if status = JStr ''succeeded'' then get_prop prediction ''output''
                  else JUndefined),
        distinctId = slot_read (posthogDistinctId posthogParams),
        traceId = slot_read (posthogTraceId posthogParams),
        customProperties =
          Some ((spread_properties posthogParams)
                  (''$ai_prediction_status'' \<mapsto> status,
                   ''$ai_prediction_get'' \<mapsto> JBool True,
                   ''$ai_prediction_completed'' \<mapsto> JBool (isCompleted status))),
        groups = slot_read (posthogGroups posthogParams),
        privacyMode = slot_read (posthogPrivacyMode posthogParams),
        stream = None,
        predictionId = JStr predictionId' \<rparr>)"

text \<open>The status the \<open>finally\<close> block observes: that of the fetched record, if there is one.\<close>

definition observed_status :: "jsval + jsval \<Rightarrow> jsval" where
  "observed_status r = get_prop (fst (try_catch r)) ''status''"

text \<open>\<open>options ? { signal: options.signal } : undefined\<close>.\<close>

definition get_replicateOptions :: "props PostHogTrackingOptions_scheme option \<Rightarrow> props option" where
  "get_replicateOptions options =
     (case options of
        Some opts \<Rightarrow> Some [''signal'' \<mapsto> lookup (PostHogTrackingOptions.more opts) ''signal'']
      | None \<Rightarrow> None)"

definition getPrediction ::
    "(jsval \<Rightarrow> string) \<Rightarrow> PostHogReplicate \<Rightarrow> string \<Rightarrow>
     props PostHogTrackingOptions_scheme option \<Rightarrow> jsnumber \<Rightarrow>
     (jsval + jsval) \<times> PostHogReplicate" where
  "getPrediction toStr this predictionId' options elapsed =
     (let posthogParams = merged_params this predictionId' options;
          r = originalPredictionsGet this predictionId' (get_replicateOptions options);
          this1 = (if isCompleted (observed_status r)
                   then this\<lparr> predictionTrackingParams :=
                                 (predictionTrackingParams this)(JStr predictionId' := None) \<rparr>
                   else this)
      in finally_capture toStr this1
           (get_options toStr predictionId' posthogParams r elapsed) r)"


subsection \<open>The parent class at work\<close>

text \<open>
  The parent \<open>run\<close> executed on the instance: its calls of \<open>this.predictions.create\<close> and
  \<open>this.predictions.get\<close> are calls of the tracked methods, each with its own event and its
  own effect on the stored parameters. It gives what the parent \<open>run\<close> returns or throws, and
  the wrapper after it.
\<close>

primrec run_parent ::
    "(jsval \<Rightarrow> string) \<Rightarrow> parent_run \<Rightarrow> PostHogReplicate \<Rightarrow> (jsval + jsval) \<times> PostHogReplicate" where
  "run_parent toStr (Return v) this = (Inr v, this)"
| "run_parent toStr (Raise err) this = (Inl err, this)"
| "run_parent toStr (Create options elapsed k) this =
     (let (r, this') = createPrediction toStr this options elapsed
      in run_parent toStr (k r) this')"
| "run_parent toStr (Get predictionId' options elapsed k) this =
     (let (r, this') = getPrediction toStr this predictionId' options elapsed
      in run_parent toStr (k r) this')"

subsection \<open>run\<close>

definition run_options ::
    "string \<Rightarrow> PostHogTrackingOptions \<Rightarrow> props \<Rightarrow> jsval + jsval \<Rightarrow> jsnumber \<Rightarrow> CaptureOptions" where
  "run_options model' posthogParams replicateOptions r elapsed =
     (let (output', isError', error', httpStatus') = try_catch r in
      \<lparr> model = model',
        latency = elapsed,
        httpStatus = httpStatus',
        isError = isError',
        error = error',
        input = lookup replicateOptions ''input'',
        output = output',
        distinctId = slot_read (posthogDistinctId posthogParams),
        traceId = slot_read (posthogTraceId posthogParams),
        customProperties = slot_read (posthogProperties posthogParams),
        groups = slot_read (posthogGroups posthogParams),
        privacyMode = slot_read (posthogPrivacyMode posthogParams),
        stream = Some False,
        predictionId = JUndefined \<rparr>)"

definition PostHogReplicate_run ::
    "(jsval \<Rightarrow> string) \<Rightarrow> PostHogReplicate \<Rightarrow> string \<Rightarrow> props PostHogTrackingOptions_scheme \<Rightarrow>
     jsnumber \<Rightarrow> (jsval + jsval) \<times> PostHogReplicate" where
  "PostHogReplicate_run toStr this model' options elapsed =
     (let (posthogParams, replicateOptions) = extractPostHogParams options;
          (r, this1) = run_parent toStr (super_run this model' replicateOptions) this
      in finally_capture toStr this1
           (run_options model' posthogParams replicateOptions r elapsed)
           (case r of
              Inr result \<Rightarrow> Inr (fst (try_catch r))
            | Inl err \<Rightarrow> Inl err))"

subsection \<open>stream\<close>

text \<open>
  The \<open>for await\<close> loop over the parent \<open>stream\<close>, which executes on the instance: every
  chunk is yielded as it is, the data of the chunks tagged \<open>output\<close> are appended to
  \<open>collectedOutput\<close>. It gives the chunks yielded, the final \<open>collectedOutput\<close>, the value
  thrown by the underlying stream, if any, and the wrapper after the loop.
\<close>

primrec for_await ::
    "(jsval \<Rightarrow> string) \<Rightarrow> upstream \<Rightarrow> string \<Rightarrow> PostHogReplicate \<Rightarrow>
     chunk list \<times> string \<times> jsval option \<times> PostHogReplicate" where
  "for_await toStr Done collectedOutput this = ([], collectedOutput, None, this)"
| "for_await toStr (Throw err) collectedOutput this = ([], collectedOutput, Some err, this)"
| "for_await toStr (Yield c rest) collectedOutput this =
     (let collected = (if event c = ''output'' then collectedOutput @ data c else collectedOutput);
          (yielded, final, thrown, this') = for_await toStr rest collected this
      in (c # yielded, final, thrown, this'))"
| "for_await toStr (CreateThen options elapsed k) collectedOutput this =
     (let (r, this') = createPrediction toStr this options elapsed
      in for_await toStr (k r) collectedOutput this')"
| "for_await toStr (GetThen predictionId' options elapsed k) collectedOutput this =
     (let (r, this') = getPrediction toStr this predictionId' options elapsed
      in for_await toStr (k r) collectedOutput this')"

definition stream_options ::
    "string \<Rightarrow> PostHogTrackingOptions \<Rightarrow> props \<Rightarrow> string \<Rightarrow> jsval option \<Rightarrow> jsnumber \<Rightarrow>
     CaptureOptions" where
  "stream_options model' posthogParams replicateOptions collectedOutput thrown elapsed =
     \<lparr> model = model',
       latency = elapsed,
       httpStatus = (case thrown of None \<Rightarrow> Fin 200 | Some err \<Rightarrow> catch_httpStatus err),
       isError = (thrown \<noteq> None),
       error = (case thrown of None \<Rightarrow> JUndefined | Some err \<Rightarrow> err),
       input = lookup replicateOptions ''input'',
       output = (if collectedOutput \<noteq> [] then JStr collectedOutput else JUndefined),
       distinctId = slot_read (posthogDistinctId posthogParams),
       traceId = slot_read (posthogTraceId posthogParams),
       customProperties = slot_read (posthogProperties posthogParams),
       groups = slot_read (posthogGroups posthogParams),
       privacyMode = slot_read (posthogPrivacyMode posthogParams),
       stream = Some True,
       predictionId = JUndefined \<rparr>"

text \<open>
  A stream consumed to its end: the chunks the caller received, the value thrown to the caller
  at the end (if any), and the wrapper after the \<open>finally\<close> block.
\<close>

definition PostHogReplicate_stream ::
    "(jsval \<Rightarrow> string) \<Rightarrow> PostHogReplicate \<Rightarrow> string \<Rightarrow> props PostHogTrackingOptions_scheme \<Rightarrow>
     jsnumber \<Rightarrow> chunk list \<times> jsval option \<times> PostHogReplicate" where
  "PostHogReplicate_stream toStr this model' options elapsed =
     (let (posthogParams, replicateOptions) = extractPostHogParams options;
          (yielded, collectedOutput, thrown, this1) =
             for_await toStr (super_stream this model' replicateOptions) [] this;
          (refused, posthog') = captureGeneration toStr (posthog this1)
             (stream_options model' posthogParams replicateOptions collectedOutput thrown elapsed)
      in (yielded,
          (case refused of Some e \<Rightarrow> Some e | None \<Rightarrow> thrown),
          this1\<lparr> posthog := posthog' \<rparr>))"

section \<open>Notions of the specification\<close>

text \<open>
  The underlying stream's chunks: what the parent \<open>stream\<close> yields when it is consumed to its
  end on the instance, the error that ends it, if one does, and the wrapper after it.
\<close>

primrec consumed ::
    "(jsval \<Rightarrow> string) \<Rightarrow> upstream \<Rightarrow> PostHogReplicate \<Rightarrow>
     chunk list \<times> jsval option \<times> PostHogReplicate" where
  "consumed toStr Done this = ([], None, this)"
| "consumed toStr (Throw err) this = ([], Some err, this)"
| "consumed toStr (Yield c rest) this =
     (let (cs, thrown, this') = consumed toStr rest this in (c # cs, thrown, this'))"
| "consumed toStr (CreateThen options elapsed k) this =
     (let (r, this') = createPrediction toStr this options elapsed
      in consumed toStr (k r) this')"
| "consumed toStr (GetThen predictionId' options elapsed k) this =
     (let (r, this') = getPrediction toStr this predictionId' options elapsed
      in consumed toStr (k r) this')"

text \<open>The concatenation, in order, of the data of the chunks tagged \<open>output\<close>.\<close>

definition output_payloads :: "chunk list \<Rightarrow> string" where
  "output_payloads cs = concat (map data (filter (\<lambda>c. event c = ''output'') cs))"

text \<open>
  The status lookup in the specification's words: a numeric \<open>status\<close> field, then a numeric
  \<open>statusCode\<close> field, then the numeric \<open>status\<close> field of a nested response object.
\<close>

definition numeric_field :: "jsval \<Rightarrow> string \<Rightarrow> jsnumber option" where
  "numeric_field v k =
     (case v of
        JObj e m \<Rightarrow> (case m k of Some (JNum n) \<Rightarrow> Some n | _ \<Rightarrow> None)
      | _ \<Rightarrow> None)"

definition status_in_order :: "jsval \<Rightarrow> jsnumber option" where
  "status_in_order err =
     (case numeric_field err ''status'' of
        Some n \<Rightarrow> Some n
      | None \<Rightarrow>
        (case numeric_field err ''statusCode'' of
           Some n \<Rightarrow> Some n
         | None \<Rightarrow> numeric_field (get_prop err ''response'') ''status''))"

text \<open>
  The status recorded for a thrown value, in words: the first status found in that order,
  and 500 when none is found or when the one found is 0 or \<open>NaN\<close>.
\<close>

definition recorded_status :: "jsval \<Rightarrow> jsnumber" where
  "recorded_status err =
     (case status_in_order err of
        None \<Rightarrow> Fin 500
      | Some n \<Rightarrow> (if n = Fin 0 \<or> n = NaN then Fin 500 else n))"

text \<open>Whether the custom properties handed to the formatter, or to a call, have a key.\<close>

definition custom_defines :: "CaptureOptions \<Rightarrow> string \<Rightarrow> bool" where
  "custom_defines options k =
     (case customProperties options of Some c \<Rightarrow> c k \<noteq> None | None \<Rightarrow> False)"

definition supplies_property :: "'m PostHogTrackingOptions_scheme \<Rightarrow> string \<Rightarrow> bool" where
  "supplies_property options k =
     (case slot_read (posthogProperties options) of Some c \<Rightarrow> c k \<noteq> None | None \<Rightarrow> False)"

text \<open>
  The event a call emitted itself: the newest message handed to the collector. The whole
  log of a wrapper is \<open>handed (posthog this)\<close>.
\<close>

definition emitted :: "PostHogReplicate \<Rightarrow> EventMessage" where
  "emitted this = last (handed (posthog this))"

text \<open>
  What tells the events of the four operations apart: the create marker, the get marker and
  the stream flag of an event.
\<close>

definition marks :: "EventMessage \<Rightarrow> jsval option \<times> jsval option \<times> jsval option" where
  "marks e =
     (msg_properties e ''$ai_async_prediction'',
      msg_properties e ''$ai_prediction_get'',
      msg_properties e ''$ai_stream'')"

section \<open>Example values\<close>

text \<open>
  A fresh wrapper over a collector that never throws and a client that answers \<open>create\<close> and
  \<open>get\<close> with \<open>r\<close>, whose parent \<open>run\<close> answers with \<open>r\<close> without calling back, and whose parent
  \<open>stream\<close> is \<open>up\<close>; an options object with no tracking key; a rendering of values.
\<close>

definition wrapper :: "jsval + jsval \<Rightarrow> upstream \<Rightarrow> PostHogReplicate" where
  "wrapper r up =
     \<lparr> posthog = \<lparr> handed = [], refuses = (\<lambda>_ _. None) \<rparr>,
       originalPredictionsCreate = (\<lambda>_. r),
       originalPredictionsGet = (\<lambda>_ _. r),
       predictionTrackingParams = Map.empty,
       super_run = (\<lambda>_ _. case r of Inr v \<Rightarrow> Return v | Inl err \<Rightarrow> Raise err),
       super_stream = (\<lambda>_ _. up) \<rparr>"

definition untracked :: "props \<Rightarrow> props PostHogTrackingOptions_scheme" where
  "untracked replicateOptions =
     \<lparr> posthogDistinctId = Absent, posthogTraceId = Absent, posthogProperties = Absent,
       posthogGroups = Absent, posthogPrivacyMode = Absent, \<dots> = replicateOptions \<rparr>"

definition render :: "jsval \<Rightarrow> string" where
  "render v = ''[value]''"

definition pred :: "string \<Rightarrow> props" where
  "pred status = [''id'' \<mapsto> JStr ''pred_1'', ''status'' \<mapsto> JStr status]"

text \<open>Calls with privacy mode on: a plain one, and one whose custom properties carry the input.\<close>

definition private_call :: "props PostHogTrackingOptions_scheme" where
  "private_call =
     (untracked [''input'' \<mapsto> JStr ''secret''])\<lparr> posthogPrivacyMode := Own (Some True) \<rparr>"

definition private_call_with_custom_input :: "props PostHogTrackingOptions_scheme" where
  "private_call_with_custom_input =
     private_call\<lparr> posthogProperties := Own (Some [''$ai_input'' \<mapsto> JStr ''secret'']) \<rparr>"

text \<open>Calls whose custom properties carry a key that the formatter or a wrapper also writes.\<close>

definition call_with_custom_error :: "props PostHogTrackingOptions_scheme" where
  "call_with_custom_error =
     (untracked [''input'' \<mapsto> JStr ''hello''])
       \<lparr> posthogProperties := Own (Some [''$ai_error'' \<mapsto> JStr ''none'']) \<rparr>"

definition call_with_custom_marker :: "props PostHogTrackingOptions_scheme" where
  "call_with_custom_marker =
     (untracked [''model'' \<mapsto> JStr ''owner/model'', ''input'' \<mapsto> JStr ''hello''])
       \<lparr> posthogProperties := Own (Some [''$ai_async_prediction'' \<mapsto> JBool False]) \<rparr>"

definition call_with_span_name :: "props PostHogTrackingOptions_scheme" where
  "call_with_span_name =
     (untracked [''model'' \<mapsto> JStr ''owner/model'', ''input'' \<mapsto> JStr ''hello''])
       \<lparr> posthogProperties := Own (Some [''$ai_span_name'' \<mapsto> JStr ''summarise'']) \<rparr>"

text \<open>
  A create call that names its user, and a later get call for the prediction it created that
  supplies a trace id only.
\<close>

definition create_call :: "props PostHogTrackingOptions_scheme" where
  "create_call =
     (untracked [''model'' \<mapsto> JStr ''owner/model'', ''input'' \<mapsto> JStr ''hello''])
       \<lparr> posthogDistinctId := Own (Some ''user_1'') \<rparr>"

definition get_call :: "props PostHogTrackingOptions_scheme" where
  "get_call = (untracked Map.empty)\<lparr> posthogTraceId := Own (Some ''trace_2'') \<rparr>"

definition after_create :: PostHogReplicate where
  "after_create =
     snd (createPrediction render (wrapper (Inr (JObj False (pred ''starting''))) Done)
            create_call (Fin 1))"

text \<open>The wrapper after that create call, over a client whose \<open>get\<close> answers with a status.\<close>

definition polled :: "string \<Rightarrow> PostHogReplicate" where
  "polled status =
     after_create\<lparr> originalPredictionsGet := (\<lambda>_ _. Inr (JObj False (pred status))) \<rparr>"

text \<open>A call with an input and no tracking key.\<close>

definition plain_call :: "props PostHogTrackingOptions_scheme" where
  "plain_call = untracked [''input'' \<mapsto> JStr ''secret'']"

text \<open>
  A fetched record of a finished prediction, with its input and its output, and the id of a
  record as a string.
\<close>

definition pred_done :: props where
  "pred_done =
     [''id'' \<mapsto> JStr ''pred_1'', ''status'' \<mapsto> JStr ''succeeded'',
      ''input'' \<mapsto> JStr ''secret'', ''output'' \<mapsto> JStr ''answer'']"

definition prediction_id :: "jsval \<Rightarrow> string" where
  "prediction_id p = (case get_prop p ''id'' of JStr s \<Rightarrow> s | _ \<Rightarrow> '''')"

text \<open>
  A parent \<open>run\<close> that works through the instance, as a client does that creates a prediction
  and waits for it: it creates the prediction with \<open>this.predictions.create\<close> from the model
  and the input, fetches it once with \<open>this.predictions.get\<close>, and returns the output of the
  fetched record.
\<close>

definition replicate_run :: "string \<Rightarrow> props \<Rightarrow> parent_run" where
  "replicate_run m replicateOptions =
     Create (untracked [''model'' \<mapsto> JStr m, ''input'' \<mapsto> lookup replicateOptions ''input''])
       (Fin 1)
       (\<lambda>created. case created of
          Inl err \<Rightarrow> Raise err
        | Inr p \<Rightarrow>
            Get (prediction_id p) None (Fin 1)
              (\<lambda>fetched. case fetched of
                 Inl err \<Rightarrow> Raise err
               | Inr q \<Rightarrow> Return (get_prop q ''output'')))"

text \<open>
  Three chunks, two of them tagged \<open>output\<close>, the stream that yields them, and a parent
  \<open>stream\<close> that creates its prediction with \<open>this.predictions.create\<close> and then yields
  these chunks.
\<close>

definition hello_chunks :: "chunk list" where
  "hello_chunks =
     [\<lparr> event = ''output'', data = ''Hel'', id' = None \<rparr>,
      \<lparr> event = ''logs'', data = ''working'', id' = None \<rparr>,
      \<lparr> event = ''output'', data = ''lo'', id' = None \<rparr>]"

definition hello_stream :: upstream where
  "hello_stream = foldr Yield hello_chunks Done"

definition replicate_stream :: "string \<Rightarrow> props \<Rightarrow> upstream" where
  "replicate_stream m replicateOptions =
     CreateThen
       (untracked [''model'' \<mapsto> JStr m, ''input'' \<mapsto> lookup replicateOptions ''input'',
                   ''stream'' \<mapsto> JBool True])
       (Fin 1)
       (\<lambda>created. case created of
          Inl err \<Rightarrow> Throw err
        | Inr p \<Rightarrow> hello_stream)"

definition replicate_wrapper :: PostHogReplicate where
  "replicate_wrapper =
     (wrapper (Inr (JObj False pred_done)) Done)
       \<lparr> super_run := replicate_run, super_stream := replicate_stream \<rparr>"

text \<open>A wrapper whose collector throws on every message.\<close>

definition refusing_wrapper :: PostHogReplicate where
  "refusing_wrapper =
     (wrapper (Inr (JStr ''ok'')) Done)
       \<lparr> posthog := \<lparr> handed = [], refuses = (\<lambda>_ _. Some (JStr ''collector down'')) \<rparr> \<rparr>"

text \<open>
  Calls whose custom properties carry the error flag, the status, or the stream flag and the
  output; and two thrown values: one with the status in a nested response, one with the
  status 0.
\<close>

definition call_with_custom_flag :: "props PostHogTrackingOptions_scheme" where
  "call_with_custom_flag =
     (untracked [''input'' \<mapsto> JStr ''hello''])
       \<lparr> posthogProperties := Own (Some [''$ai_is_error'' \<mapsto> JBool False]) \<rparr>"

definition call_with_custom_status :: "props PostHogTrackingOptions_scheme" where
  "call_with_custom_status =
     (untracked [''input'' \<mapsto> JStr ''hello''])
       \<lparr> posthogProperties := Own (Some [''$ai_http_status'' \<mapsto> JNum (Fin 200)]) \<rparr>"


definition rate_limited :: jsval where
  "rate_limited =
     JObj True [''statusCode'' \<mapsto> JStr ''n/a'',
                ''response'' \<mapsto> JObj False [''status'' \<mapsto> JNum (Fin 429)]]"

definition status_zero :: jsval where
  "status_zero = JObj False [''status'' \<mapsto> JNum (Fin 0)]"

section \<open>The formatter, key by key\<close>

lemma add_custom_apply:
  "add_custom options m k =
     (case customProperties options of
        Some c \<Rightarrow> (case c k of Some v \<Rightarrow> Some v | None \<Rightarrow> m k)
      | None \<Rightarrow> m k)"
  by (simp add: add_custom_def map_add_def split: option.splits)

lemma add_prediction_id_other:
  "k \<noteq> ''$ai_prediction_id'' \<Longrightarrow> add_prediction_id options m k = m k"
  by (simp add: add_prediction_id_def)

lemma add_stream_other: "k \<noteq> ''$ai_stream'' \<Longrightarrow> add_stream options m k = m k"
  by (simp add: add_stream_def split: option.splits)

lemma add_trace_id_other: "k \<noteq> ''$ai_trace_id'' \<Longrightarrow> add_trace_id options m k = m k"
  by (simp add: add_trace_id_def split: option.splits)

lemma add_input_output_apply:
  "add_input_output options m k =
     (if privacyMode options \<noteq> Some True \<and> k = ''$ai_output_choices'' \<and> output options \<noteq> JUndefined
      then Some (formatOutput (output options))
      else if privacyMode options \<noteq> Some True \<and> k = ''$ai_input'' \<and> input options \<noteq> JUndefined
      then Some (formatInput (input options))
      else m k)"
  by (simp add: add_input_output_def Let_def)

lemma add_error_apply:
  "add_error toStr options m k =
     (if k = ''$ai_error'' \<and> isError options \<and> truthy (error options)
      then Some (formatError toStr (error options)) else m k)"
  by (simp add: add_error_def)

lemma core_properties_input: "core_properties options ''$ai_input'' = None"
  by (simp add: core_properties_def)

lemma core_properties_output: "core_properties options ''$ai_output_choices'' = None"
  by (simp add: core_properties_def)

lemma core_properties_error: "core_properties options ''$ai_error'' = None"
  by (simp add: core_properties_def)

lemma core_properties_is_error: "core_properties options ''$ai_is_error'' = Some (JBool (isError options))"
  by (simp add: core_properties_def)

lemma generated_input:
  "generated_properties toStr options ''$ai_input'' =
     (if privacyMode options \<noteq> Some True \<and> input options \<noteq> JUndefined
      then Some (formatInput (input options)) else None)"
  by (simp add: generated_properties_def add_prediction_id_other add_stream_other
      add_trace_id_other add_input_output_apply add_error_apply core_properties_input)

lemma generated_output:
  "generated_properties toStr options ''$ai_output_choices'' =
     (if privacyMode options \<noteq> Some True \<and> output options \<noteq> JUndefined
      then Some (formatOutput (output options)) else None)"
  by (simp add: generated_properties_def add_prediction_id_other add_stream_other
      add_trace_id_other add_input_output_apply add_error_apply core_properties_output)

lemma generated_error:
  "generated_properties toStr options ''$ai_error'' =
     (if isError options \<and> truthy (error options)
      then Some (formatError toStr (error options)) else None)"
  by (simp add: generated_properties_def add_prediction_id_other add_stream_other
      add_trace_id_other add_input_output_apply add_error_apply core_properties_error)

lemma generated_is_error:
  "generated_properties toStr options ''$ai_is_error'' = Some (JBool (isError options))"
  by (simp add: generated_properties_def add_prediction_id_other add_stream_other
      add_trace_id_other add_input_output_apply add_error_apply core_properties_is_error)

lemma event_properties_custom:
  "customProperties options = Some c \<Longrightarrow> c k = Some v \<Longrightarrow> event_properties toStr options k = Some v"
  by (simp add: event_properties_def add_custom_apply)

lemma event_properties_generated:
  "\<not> custom_defines options k \<Longrightarrow> event_properties toStr options k = generated_properties toStr options k"
  by (simp add: event_properties_def add_custom_apply custom_defines_def split: option.splits)

section \<open>What each operation returns and emits\<close>

lemma capture_handed:
  "handed (snd (captureGeneration toStr ph options)) = handed ph @ [event_message toStr options]"
  by (simp add: captureGeneration_def capture_def)

lemma capture_refused:
  "fst (captureGeneration toStr ph options) =
     refuses ph (handed ph) (event_message toStr options)"
  by (simp add: captureGeneration_def capture_def)

lemma finally_handed:
  "handed (posthog (snd (finally_capture toStr this options pending))) =
     handed (posthog this) @ [event_message toStr options]"
  by (simp add: finally_capture_def split_def Let_def capture_handed)

lemma finally_result:
  "fst (finally_capture toStr this options pending) =
     (case refuses (posthog this) (handed (posthog this)) (event_message toStr options) of
        Some e \<Rightarrow> Inl e
      | None \<Rightarrow> pending)"
  by (simp add: finally_capture_def split_def Let_def capture_refused)

lemma finally_tracking:
  "predictionTrackingParams (snd (finally_capture toStr this options pending)) =
     predictionTrackingParams this"
  by (simp add: finally_capture_def split_def Let_def)

lemma emitted_finally:
  "emitted (snd (finally_capture toStr this options pending)) = event_message toStr options"
  by (simp add: emitted_def finally_handed)

lemma store_params_posthog: "posthog (store_params this p pp) = posthog this"
  by (simp add: store_params_def Let_def)

lemma create_handed:
  "handed (posthog (snd (createPrediction toStr this opts el))) =
     handed (posthog this) @ [event_message toStr
        (create_options toStr (fst (extractPostHogParams opts)) (snd (extractPostHogParams opts))
           (originalPredictionsCreate this (snd (extractPostHogParams opts))) el)]"
  by (simp add: createPrediction_def Let_def split_def finally_handed store_params_posthog
      split: sum.splits)

lemma emitted_create:
  "emitted (snd (createPrediction toStr this opts el)) =
     event_message toStr
       (create_options toStr (fst (extractPostHogParams opts)) (snd (extractPostHogParams opts))
          (originalPredictionsCreate this (snd (extractPostHogParams opts))) el)"
  by (simp add: emitted_def create_handed)

lemma get_handed:
  "handed (posthog (snd (getPrediction toStr this pid opts el))) =
     handed (posthog this) @ [event_message toStr
        (get_options toStr pid (merged_params this pid opts)
           (originalPredictionsGet this pid (get_replicateOptions opts)) el)]"
  by (simp add: getPrediction_def Let_def finally_handed)

lemma emitted_get:
  "emitted (snd (getPrediction toStr this pid opts el)) =
     event_message toStr
       (get_options toStr pid (merged_params this pid opts)
          (originalPredictionsGet this pid (get_replicateOptions opts)) el)"
  by (simp add: emitted_def get_handed)


lemma merged_params_Some:
  "merged_params this pid (Some opts) = fst (extractPostHogParams opts)"
  by (simp add: merged_params_def spread_params_def extractPostHogParams_def Let_def)

lemma merged_params_None:
  "merged_params this pid None =
     (case predictionTrackingParams this (JStr pid) of Some p \<Rightarrow> p | None \<Rightarrow> empty_params)"
  by (simp add: merged_params_def spread_params_def empty_params_def Let_def split: option.splits)

lemma run_handed:
  "handed (posthog (snd (PostHogReplicate_run toStr this m opts el))) =
     handed (posthog (snd (run_parent toStr (super_run this m (snd (extractPostHogParams opts)))
                        this))) @
     [event_message toStr
        (run_options m (fst (extractPostHogParams opts)) (snd (extractPostHogParams opts))
           (fst (run_parent toStr (super_run this m (snd (extractPostHogParams opts))) this))
           el)]"
  by (simp add: PostHogReplicate_run_def Let_def split_def finally_handed)

lemma emitted_run:
  "emitted (snd (PostHogReplicate_run toStr this m opts el)) =
     event_message toStr
       (run_options m (fst (extractPostHogParams opts)) (snd (extractPostHogParams opts))
          (fst (run_parent toStr (super_run this m (snd (extractPostHogParams opts))) this)) el)"
  by (simp add: emitted_def run_handed)

lemma for_await_consumed:
  "for_await toStr up acc this =
     (fst (consumed toStr up this),
      acc @ output_payloads (fst (consumed toStr up this)),
      fst (snd (consumed toStr up this)),
      snd (snd (consumed toStr up this)))"
  by (induction up arbitrary: acc this) (simp_all add: output_payloads_def split_def Let_def)

lemma stream_handed:
  "handed (posthog (snd (snd (PostHogReplicate_stream toStr this m opts el)))) =
     handed (posthog (snd (snd (consumed toStr
        (super_stream this m (snd (extractPostHogParams opts))) this)))) @
     [event_message toStr
        (stream_options m (fst (extractPostHogParams opts)) (snd (extractPostHogParams opts))
           (output_payloads (fst (consumed toStr
              (super_stream this m (snd (extractPostHogParams opts))) this)))
           (fst (snd (consumed toStr
              (super_stream this m (snd (extractPostHogParams opts))) this))) el)]"
  by (simp add: PostHogReplicate_stream_def Let_def split_def for_await_consumed capture_handed)

lemma emitted_stream:
  "emitted (snd (snd (PostHogReplicate_stream toStr this m opts el))) =
     event_message toStr
       (stream_options m (fst (extractPostHogParams opts)) (snd (extractPostHogParams opts))
          (output_payloads (fst (consumed toStr
             (super_stream this m (snd (extractPostHogParams opts))) this)))
          (fst (snd (consumed toStr
             (super_stream this m (snd (extractPostHogParams opts))) this))) el)"
  by (simp add: emitted_def stream_handed)


lemma core_properties_distinctId:
  "core_properties (options\<lparr>distinctId := d\<rparr>) = core_properties options"
  by (simp add: core_properties_def)

lemma add_error_distinctId:
  "add_error toStr (options\<lparr>distinctId := d\<rparr>) = add_error toStr options"
  by (rule ext) (simp add: add_error_def)

lemma add_input_output_distinctId:
  "add_input_output (options\<lparr>distinctId := d\<rparr>) = add_input_output options"
  by (rule ext) (simp add: add_input_output_def)

lemma add_trace_id_distinctId:
  "add_trace_id (options\<lparr>distinctId := d\<rparr>) = add_trace_id options"
  by (rule ext) (simp add: add_trace_id_def)

lemma add_stream_distinctId:
  "add_stream (options\<lparr>distinctId := d\<rparr>) = add_stream options"
  by (rule ext) (simp add: add_stream_def)

lemma add_prediction_id_distinctId:
  "add_prediction_id (options\<lparr>distinctId := d\<rparr>) = add_prediction_id options"
  by (rule ext) (simp add: add_prediction_id_def)

lemma add_custom_distinctId:
  "add_custom (options\<lparr>distinctId := d\<rparr>) = add_custom options"
  by (rule ext) (simp add: add_custom_def)

lemma event_properties_distinctId:
  "event_properties toStr (options\<lparr>distinctId := d\<rparr>) = event_properties toStr options"
  unfolding event_properties_def generated_properties_def
  by (simp only: core_properties_distinctId add_error_distinctId add_input_output_distinctId
      add_trace_id_distinctId add_stream_distinctId add_prediction_id_distinctId
      add_custom_distinctId)

section \<open>The capture options of each operation\<close>

lemma msg_properties_event_message:
  "msg_properties (event_message toStr options) = event_properties toStr options"
  by (simp add: event_message_def)

lemma extract_fields:
  "slot_read (posthogDistinctId (fst (extractPostHogParams opts))) = slot_read (posthogDistinctId opts)"
  "slot_read (posthogTraceId (fst (extractPostHogParams opts))) = slot_read (posthogTraceId opts)"
  "slot_read (posthogProperties (fst (extractPostHogParams opts))) = slot_read (posthogProperties opts)"
  "slot_read (posthogGroups (fst (extractPostHogParams opts))) = slot_read (posthogGroups opts)"
  "slot_read (posthogPrivacyMode (fst (extractPostHogParams opts))) = slot_read (posthogPrivacyMode opts)"
  by (simp_all add: extractPostHogParams_def)

lemma run_options_fields:
  "privacyMode (run_options m pp ro r el) = slot_read (posthogPrivacyMode pp)"
  "customProperties (run_options m pp ro r el) = slot_read (posthogProperties pp)"
  "distinctId (run_options m pp ro r el) = slot_read (posthogDistinctId pp)"
  "traceId (run_options m pp ro r el) = slot_read (posthogTraceId pp)"
  by (simp_all add: run_options_def Let_def split_def)

lemma stream_options_fields:
  "privacyMode (stream_options m pp ro out thrown el) = slot_read (posthogPrivacyMode pp)"
  "customProperties (stream_options m pp ro out thrown el) = slot_read (posthogProperties pp)"
  "distinctId (stream_options m pp ro out thrown el) = slot_read (posthogDistinctId pp)"
  "traceId (stream_options m pp ro out thrown el) = slot_read (posthogTraceId pp)"
  by (simp_all add: stream_options_def)

lemma create_options_fields:
  "privacyMode (create_options toStr pp ro r el) = slot_read (posthogPrivacyMode pp)"
  "customProperties (create_options toStr pp ro r el) =
     Some ((spread_properties pp)(''$ai_async_prediction'' \<mapsto> JBool True))"
  "distinctId (create_options toStr pp ro r el) = slot_read (posthogDistinctId pp)"
  "traceId (create_options toStr pp ro r el) = slot_read (posthogTraceId pp)"
  by (simp_all add: create_options_def Let_def split_def)

lemma get_options_fields:
  "privacyMode (get_options toStr pid pp r el) = slot_read (posthogPrivacyMode pp)"
  "customProperties (get_options toStr pid pp r el) =
     Some ((spread_properties pp)
             (''$ai_prediction_status'' \<mapsto> get_prop (fst (try_catch r)) ''status'',
              ''$ai_prediction_get'' \<mapsto> JBool True,
              ''$ai_prediction_completed'' \<mapsto>
                 JBool (isCompleted (get_prop (fst (try_catch r)) ''status''))))"
  "distinctId (get_options toStr pid pp r el) = slot_read (posthogDistinctId pp)"
  "traceId (get_options toStr pid pp r el) = slot_read (posthogTraceId pp)"
  by (simp_all add: get_options_def Let_def split_def)

lemma spread_properties_extract:
  "spread_properties (fst (extractPostHogParams opts)) k =
     (case slot_read (posthogProperties opts) of Some c \<Rightarrow> c k | None \<Rightarrow> None)"
  by (simp add: spread_properties_def extractPostHogParams_def split: option.splits)

lemma custom_defines_run:
  "custom_defines (run_options m (fst (extractPostHogParams opts)) ro r el) k =
     supplies_property opts k"
  by (simp add: custom_defines_def supplies_property_def run_options_fields extract_fields)

lemma custom_defines_stream:
  "custom_defines (stream_options m (fst (extractPostHogParams opts)) ro out thrown el) k =
     supplies_property opts k"
  by (simp add: custom_defines_def supplies_property_def stream_options_fields extract_fields)

lemma custom_defines_create:
  "custom_defines (create_options toStr (fst (extractPostHogParams opts)) ro r el) k =
     (k = ''$ai_async_prediction'' \<or> supplies_property opts k)"
  by (simp add: custom_defines_def supplies_property_def create_options_fields
      spread_properties_extract split: option.splits)

lemma custom_defines_get:
  "custom_defines (get_options toStr pid (fst (extractPostHogParams opts)) r el) k =
     (k = ''$ai_prediction_status'' \<or> k = ''$ai_prediction_get'' \<or>
      k = ''$ai_prediction_completed'' \<or> supplies_property opts k)"
  by (simp add: custom_defines_def supplies_property_def get_options_fields
      spread_properties_extract split: option.splits)

lemma privacy_hides:
  "privacyMode options = Some True \<Longrightarrow> \<not> custom_defines options k \<Longrightarrow>
   k = ''$ai_input'' \<or> k = ''$ai_output_choices'' \<Longrightarrow>
   event_properties toStr options k = None"
  by (auto simp add: event_properties_generated generated_input generated_output)

lemma event_properties_apply:
  "customProperties options = Some c \<Longrightarrow>
   event_properties toStr options k =
     (case c k of Some v \<Rightarrow> Some v | None \<Rightarrow> generated_properties toStr options k)"
  by (simp add: event_properties_def add_custom_apply)

lemma msg_distinctId_event_message:
  "msg_distinctId (event_message toStr options) =
     (case distinctId options of
        Some d \<Rightarrow> (if d \<noteq> [] then d else ''anonymous'')
      | None \<Rightarrow> ''anonymous'')"
  by (simp add: event_message_def)

section \<open>The status of a failed call\<close>

lemma numeric_field_get_prop: "numeric_field v k = as_number (get_prop v k)"
  by (cases v) (simp_all add: numeric_field_def as_number_def split: option.splits)

lemma numeric_field_non_object:
  "\<not> (truthy v \<and> typeof v = ''object'') \<Longrightarrow> numeric_field v k = None"
  by (cases v) (simp_all add: numeric_field_def)

lemma extractHttpStatus_in_order: "extractHttpStatus err = status_in_order err"
proof (cases "truthy err \<and> typeof err = ''object''")
  case False
  then show ?thesis
    by (cases err)
      (simp_all add: extractHttpStatus_def status_in_order_def numeric_field_def)
next
  case True
  let ?resp = "get_prop err ''response''"
  have R: "(if truthy ?resp \<and> typeof ?resp = ''object''
            then (case as_number (get_prop ?resp ''status'') of
                    Some n \<Rightarrow> Some n | None \<Rightarrow> None)
            else None) = numeric_field ?resp ''status''"
  proof (cases "truthy ?resp \<and> typeof ?resp = ''object''")
    case True
    then show ?thesis
      by (simp add: numeric_field_get_prop split: option.splits)
  next
    case False
    then show ?thesis
      using numeric_field_non_object [OF False] by auto
  qed
  from True have c: "(truthy err \<and> typeof err = ''object'') = True"
    by simp
  show ?thesis
    by (simp only: extractHttpStatus_def status_in_order_def Let_def c if_True R
        numeric_field_get_prop [of err])
qed

lemma run_options_httpStatus:
  "httpStatus (run_options m pp ro (Inl err) el) = catch_httpStatus err"
  by (simp add: run_options_def try_catch_def)

lemma or_500_cases:
  "or_500 None = Fin 500"
  "truthy (JNum n) \<Longrightarrow> or_500 (Some n) = n"
  "\<not> truthy (JNum n) \<Longrightarrow> or_500 (Some n) = Fin 500"
  by (simp_all add: or_500_def)

section \<open>The stored tracking parameters\<close>

lemma create_tracking:
  "predictionTrackingParams (snd (createPrediction toStr this opts el)) =
     (case originalPredictionsCreate this (snd (extractPostHogParams opts)) of
        Inr result \<Rightarrow>
          predictionTrackingParams (store_params this result (fst (extractPostHogParams opts)))
      | Inl err \<Rightarrow> predictionTrackingParams this)"
  by (simp add: createPrediction_def Let_def split_def finally_tracking split: sum.splits)

lemma after_create_stored:
  "predictionTrackingParams after_create (JStr ''pred_1'') =
     Some (fst (extractPostHogParams create_call))"
  by (simp add: after_create_def create_tracking wrapper_def store_params_def Let_def pred_def
      some_defined_def extract_fields create_call_def untracked_def)



section \<open>More keys of the event, and what the calls leave untouched\<close>

lemma add_stream_apply:
  "add_stream options m k =
     (if k = ''$ai_stream''
      then (case stream options of Some b \<Rightarrow> Some (JBool b) | None \<Rightarrow> m k)
      else m k)"
  by (simp add: add_stream_def split: option.splits)

lemma core_properties_stream: "core_properties options ''$ai_stream'' = None"
  by (simp add: core_properties_def)

lemma core_properties_http_status:
  "core_properties options ''$ai_http_status'' = Some (JNum (httpStatus options))"
  by (simp add: core_properties_def)

lemma generated_stream:
  "generated_properties toStr options ''$ai_stream'' =
     (case stream options of Some b \<Rightarrow> Some (JBool b) | None \<Rightarrow> None)"
  by (simp add: generated_properties_def add_prediction_id_other add_stream_apply
      add_trace_id_other add_input_output_apply add_error_apply core_properties_stream
      split: option.splits)

lemma generated_http_status:
  "generated_properties toStr options ''$ai_http_status'' = Some (JNum (httpStatus options))"
  by (simp add: generated_properties_def add_prediction_id_other add_stream_other
      add_trace_id_other add_input_output_apply add_error_apply core_properties_http_status)

lemma finally_fields:
  "refuses (posthog (snd (finally_capture toStr this options pending))) = refuses (posthog this)"
  "originalPredictionsCreate (snd (finally_capture toStr this options pending)) =
     originalPredictionsCreate this"
  "originalPredictionsGet (snd (finally_capture toStr this options pending)) =
     originalPredictionsGet this"
  by (simp_all add: finally_capture_def split_def Let_def captureGeneration_def capture_def)

lemma store_params_fields:
  "originalPredictionsCreate (store_params this p pp) = originalPredictionsCreate this"
  "originalPredictionsGet (store_params this p pp) = originalPredictionsGet this"
  by (simp_all add: store_params_def Let_def)

lemma create_fields:
  "refuses (posthog (snd (createPrediction toStr this opts el))) = refuses (posthog this)"
  "originalPredictionsCreate (snd (createPrediction toStr this opts el)) =
     originalPredictionsCreate this"
  "originalPredictionsGet (snd (createPrediction toStr this opts el)) =
     originalPredictionsGet this"
  by (simp_all add: createPrediction_def Let_def split_def finally_fields store_params_posthog
      store_params_fields split: sum.splits)

lemma get_fields:
  "refuses (posthog (snd (getPrediction toStr this pid opts el))) = refuses (posthog this)"
  "originalPredictionsCreate (snd (getPrediction toStr this pid opts el)) =
     originalPredictionsCreate this"
  "originalPredictionsGet (snd (getPrediction toStr this pid opts el)) =
     originalPredictionsGet this"
  by (simp_all add: getPrediction_def Let_def finally_fields)

lemma create_result:
  "fst (createPrediction toStr this opts el) =
     (case refuses (posthog this) (handed (posthog this))
             (emitted (snd (createPrediction toStr this opts el))) of
        Some e \<Rightarrow> Inl e
      | None \<Rightarrow> originalPredictionsCreate this (snd (extractPostHogParams opts)))"
  unfolding emitted_create
  by (simp add: createPrediction_def Let_def split_def finally_result store_params_posthog
      split: sum.splits)

lemma get_result:
  "fst (getPrediction toStr this pid opts el) =
     (case refuses (posthog this) (handed (posthog this))
             (emitted (snd (getPrediction toStr this pid opts el))) of
        Some e \<Rightarrow> Inl e
      | None \<Rightarrow> originalPredictionsGet this pid (get_replicateOptions opts))"
  unfolding emitted_get
  by (simp add: getPrediction_def Let_def finally_result)

lemma run_result:
  "fst (PostHogReplicate_run toStr this m opts el) =
     (case refuses
             (posthog (snd (run_parent toStr
                (super_run this m (snd (extractPostHogParams opts))) this)))
             (handed (posthog (snd (run_parent toStr
                (super_run this m (snd (extractPostHogParams opts))) this))))
             (emitted (snd (PostHogReplicate_run toStr this m opts el))) of
        Some e \<Rightarrow> Inl e
      | None \<Rightarrow> fst (run_parent toStr (super_run this m (snd (extractPostHogParams opts))) this))"
proof -
  have "(case r of Inr result \<Rightarrow> Inr (fst (try_catch r)) | Inl err \<Rightarrow> Inl err) = r"
    for r :: "jsval + jsval"
    by (cases r) (simp_all add: try_catch_def)
  then show ?thesis
    unfolding emitted_run
    by (simp add: PostHogReplicate_run_def Let_def split_def finally_result)
qed

lemma option_fields_of_failure:
  "httpStatus (run_options m pp ro (Inl err) el) = catch_httpStatus err"
  "httpStatus (stream_options m pp ro out (Some err) el) = catch_httpStatus err"
  "httpStatus (create_options toStr pp ro (Inl err) el) = catch_httpStatus err"
  "httpStatus (get_options toStr pid pp (Inl err) el) = catch_httpStatus err"
  by (simp_all add: run_options_def stream_options_def create_options_def get_options_def
      try_catch_def Let_def)

lemma wrapper_fields:
  "handed (posthog (wrapper r up)) = []"
  "refuses (posthog (wrapper r up)) = (\<lambda>_ _. None)"
  "originalPredictionsCreate (wrapper r up) = (\<lambda>_. r)"
  "originalPredictionsGet (wrapper r up) = (\<lambda>_ _. r)"
  "predictionTrackingParams (wrapper r up) = Map.empty"
  "super_stream (wrapper r up) = (\<lambda>_ _. up)"
  by (simp_all add: wrapper_def)

lemma wrapper_run_parent:
  "run_parent toStr (super_run (wrapper r up) m ro) this = (r, this)"
  by (cases r) (simp_all add: wrapper_def)

section \<open>Telling the events apart\<close>

lemma generated_markers:
  "generated_properties toStr options ''$ai_async_prediction'' = None"
  "generated_properties toStr options ''$ai_prediction_get'' = None"
  by (simp_all add: generated_properties_def add_prediction_id_other add_stream_other
      add_trace_id_other add_input_output_apply add_error_apply core_properties_def)

lemma untracked_fields:
  "slot_read (posthogDistinctId (untracked x)) = None"
  "slot_read (posthogTraceId (untracked x)) = None"
  "slot_read (posthogProperties (untracked x)) = None"
  "slot_read (posthogGroups (untracked x)) = None"
  "slot_read (posthogPrivacyMode (untracked x)) = None"
  "snd (extractPostHogParams (untracked x)) = x"
  by (simp_all add: untracked_def extractPostHogParams_def)

lemma untracked_supplies: "\<not> supplies_property (untracked x) k"
  by (simp add: supplies_property_def untracked_fields)

lemma untracked_not_defined: "\<not> some_defined (fst (extractPostHogParams (untracked x)))"
  by (simp add: some_defined_def extract_fields untracked_fields)

lemma stream_fields:
  "stream (run_options m pp ro r el) = Some False"
  "stream (stream_options m pp ro out thrown el) = Some True"
  "stream (create_options toStr pp ro r el) = None"
  "stream (get_options toStr pid pp r el) = None"
  by (simp_all add: run_options_def stream_options_def create_options_def get_options_def
      split_def Let_def)

lemma marks_create_untracked:
  "marks (event_message toStr
     (create_options toStr (fst (extractPostHogParams (untracked x))) ro r el)) =
   (Some (JBool True), None, None)"
  by (simp add: marks_def msg_properties_event_message
      event_properties_apply [OF create_options_fields(2)] spread_properties_extract
      untracked_fields generated_markers generated_stream stream_fields)

lemma marks_get_unstored:
  "predictionTrackingParams this (JStr pid) = None \<Longrightarrow>
   marks (event_message toStr (get_options toStr pid (merged_params this pid None) r el)) =
   (None, Some (JBool True), None)"
  by (simp add: marks_def msg_properties_event_message
      event_properties_apply [OF get_options_fields(2)] merged_params_None
      spread_properties_def empty_params_def generated_markers generated_stream
      stream_fields)

lemma marks_run_untracked:
  "marks (event_message toStr
     (run_options m (fst (extractPostHogParams (untracked x))) ro r el)) =
   (None, None, Some (JBool False))"
proof -
  have "\<not> custom_defines (run_options m (fst (extractPostHogParams (untracked x))) ro r el) k"
    for k
    by (simp add: custom_defines_run untracked_supplies)
  then show ?thesis
    by (simp add: marks_def msg_properties_event_message event_properties_generated
        generated_markers generated_stream stream_fields)
qed

lemma marks_stream_untracked:
  "marks (event_message toStr
     (stream_options m (fst (extractPostHogParams (untracked x))) ro out thrown el)) =
   (None, None, Some (JBool True))"
proof -
  have "\<not> custom_defines
          (stream_options m (fst (extractPostHogParams (untracked x))) ro out thrown el) k"
    for k
    by (simp add: custom_defines_stream untracked_supplies)
  then show ?thesis
    by (simp add: marks_def msg_properties_event_message event_properties_generated
        generated_markers generated_stream stream_fields)
qed

lemma create_untracked_stores_nothing:
  "predictionTrackingParams (snd (createPrediction toStr this (untracked x) el)) =
     predictionTrackingParams this"
  by (simp add: create_tracking store_params_def Let_def untracked_not_defined
      split: sum.splits)

lemma replicate_wrapper_fields:
  "handed (posthog replicate_wrapper) = []"
  "refuses (posthog replicate_wrapper) = (\<lambda>_ _. None)"
  "originalPredictionsCreate replicate_wrapper = (\<lambda>_. Inr (JObj False pred_done))"
  "originalPredictionsGet replicate_wrapper = (\<lambda>_ _. Inr (JObj False pred_done))"
  "predictionTrackingParams replicate_wrapper = Map.empty"
  "super_run replicate_wrapper = replicate_run"
  "super_stream replicate_wrapper = replicate_stream"
  by (simp_all add: replicate_wrapper_def wrapper_def)

lemma prediction_id_pred_done: "prediction_id (JObj False pred_done) = ''pred_1''"
  by (simp add: prediction_id_def pred_done_def)

lemma output_pred_done: "get_prop (JObj False pred_done) ''output'' = JStr ''answer''"
  by (simp add: pred_done_def)

lemma pred_done_output: "pred_done ''output'' = Some (JStr ''answer'')"
  by (simp add: pred_done_def)

lemma consumed_hello_stream: "consumed toStr hello_stream this = (hello_chunks, None, this)"
  by (simp add: hello_stream_def hello_chunks_def)


section \<open>The error, the input and the output in the capture options\<close>

lemma run_options_error:
  "isError (run_options m pp ro r el) = isl r"
  "error (run_options m pp ro r el) = (case r of Inl err \<Rightarrow> err | Inr v \<Rightarrow> JUndefined)"
  by (simp_all add: run_options_def try_catch_def Let_def split: sum.splits)

lemma stream_options_error:
  "isError (stream_options m pp ro out thrown el) = (thrown \<noteq> None)"
  "error (stream_options m pp ro out thrown el) =
     (case thrown of Some err \<Rightarrow> err | None \<Rightarrow> JUndefined)"
  by (simp_all add: stream_options_def split: option.splits)

lemma create_options_error:
  "isError (create_options toStr pp ro r el) = isl r"
  "error (create_options toStr pp ro r el) = (case r of Inl err \<Rightarrow> err | Inr v \<Rightarrow> JUndefined)"
  by (simp_all add: create_options_def try_catch_def Let_def split: sum.splits)

lemma get_options_error:
  "isError (get_options toStr pid pp r el) = (isl r \<or> observed_status r = JStr ''failed'')"
  "error (get_options toStr pid pp r el) =
     (case r of
        Inl err \<Rightarrow> (if truthy err then err else JUndefined)
      | Inr p \<Rightarrow> (if get_prop p ''status'' = JStr ''failed'' then get_prop p ''error''
                  else JUndefined))"
  by (simp_all add: get_options_def observed_status_def try_catch_def js_or_def Let_def
      split: sum.splits)

lemma get_options_record:
  "input (get_options toStr pid pp (Inr p) el) = get_prop p ''input''"
  "output (get_options toStr pid pp (Inr p) el) =
     (if get_prop p ''status'' = JStr ''succeeded'' then get_prop p ''output'' else JUndefined)"
  by (simp_all add: get_options_def try_catch_def Let_def)

lemma input_fields:
  "input (run_options m pp ro r el) = lookup ro ''input''"
  "input (stream_options m pp ro out thrown el) = lookup ro ''input''"
  "input (create_options toStr pp ro r el) = lookup ro ''input''"
  by (simp_all add: run_options_def stream_options_def create_options_def split_def Let_def)


section \<open>The generated keys of the event of each operation\<close>

lemma supplies_property_extract:
  "supplies_property (fst (extractPostHogParams opts)) k = supplies_property opts k"
  by (simp add: supplies_property_def extract_fields)

lemma custom_defines_get_params:
  "custom_defines (get_options toStr pid pp r el) k =
     (k = ''$ai_prediction_status'' \<or> k = ''$ai_prediction_get'' \<or>
      k = ''$ai_prediction_completed'' \<or> supplies_property pp k)"
  by (simp add: custom_defines_def supplies_property_def get_options_fields
      spread_properties_def split: option.splits)

lemma own_event_run:
  "\<not> supplies_property opts k \<Longrightarrow>
   msg_properties (emitted (snd (PostHogReplicate_run toStr this m opts el))) k =
     generated_properties toStr
       (run_options m (fst (extractPostHogParams opts)) (snd (extractPostHogParams opts))
          (fst (run_parent toStr (super_run this m (snd (extractPostHogParams opts))) this)) el)
       k"
  by (simp add: emitted_run msg_properties_event_message event_properties_generated
      custom_defines_run)

lemma own_event_stream:
  "\<not> supplies_property opts k \<Longrightarrow>
   msg_properties (emitted (snd (snd (PostHogReplicate_stream toStr this m opts el)))) k =
     generated_properties toStr
       (stream_options m (fst (extractPostHogParams opts)) (snd (extractPostHogParams opts))
          (output_payloads (fst (consumed toStr
             (super_stream this m (snd (extractPostHogParams opts))) this)))
          (fst (snd (consumed toStr
             (super_stream this m (snd (extractPostHogParams opts))) this))) el)
       k"
  by (simp add: emitted_stream msg_properties_event_message event_properties_generated
      custom_defines_stream)

lemma own_event_create:
  "\<not> supplies_property opts k \<Longrightarrow> k \<noteq> ''$ai_async_prediction'' \<Longrightarrow>
   msg_properties (emitted (snd (createPrediction toStr this opts el))) k =
     generated_properties toStr
       (create_options toStr (fst (extractPostHogParams opts)) (snd (extractPostHogParams opts))
          (originalPredictionsCreate this (snd (extractPostHogParams opts))) el)
       k"
  by (simp add: emitted_create msg_properties_event_message event_properties_generated
      custom_defines_create)

lemma own_event_get:
  "\<not> supplies_property (merged_params this pid options) k \<Longrightarrow>
   k \<noteq> ''$ai_prediction_status'' \<Longrightarrow> k \<noteq> ''$ai_prediction_get'' \<Longrightarrow>
   k \<noteq> ''$ai_prediction_completed'' \<Longrightarrow>
   msg_properties (emitted (snd (getPrediction toStr this pid options el))) k =
     generated_properties toStr
       (get_options toStr pid (merged_params this pid options)
          (originalPredictionsGet this pid (get_replicateOptions options)) el)
       k"
  by (simp add: emitted_get msg_properties_event_message event_properties_generated
      custom_defines_get_params)

lemma option_fields_of_success:
  "httpStatus (run_options m pp ro (Inr v) el) = Fin 200"
  "httpStatus (stream_options m pp ro out None el) = Fin 200"
  "httpStatus (create_options toStr pp ro (Inr v) el) = Fin 200"
  "httpStatus (get_options toStr pid pp (Inr v) el) = Fin 200"
  by (simp_all add: run_options_def stream_options_def create_options_def get_options_def
      try_catch_def Let_def)

lemma truthy_number: "truthy (JNum n) = (n \<noteq> Fin 0 \<and> n \<noteq> NaN)"
  by (cases n) simp_all

lemma catch_httpStatus_recorded: "catch_httpStatus err = recorded_status err"
  by (simp add: catch_httpStatus_def or_500_def recorded_status_def extractHttpStatus_in_order
      truthy_number split: option.splits)


lemma error_of_run:
  "generated_properties toStr (run_options m pp ro r el) ''$ai_is_error'' = Some (JBool (isl r))"
  "generated_properties toStr (run_options m pp ro r el) ''$ai_error'' =
     (case r of
        Inl err \<Rightarrow> (if truthy err then Some (formatError toStr err) else None)
      | Inr v \<Rightarrow> None)"
  by (simp_all add: generated_is_error generated_error run_options_error split: sum.splits)

lemma error_of_stream:
  "generated_properties toStr (stream_options m pp ro out thrown el) ''$ai_is_error'' =
     Some (JBool (thrown \<noteq> None))"
  "generated_properties toStr (stream_options m pp ro out thrown el) ''$ai_error'' =
     (case thrown of
        Some err \<Rightarrow> (if truthy err then Some (formatError toStr err) else None)
      | None \<Rightarrow> None)"
  by (simp_all add: generated_is_error generated_error stream_options_error
      split: option.splits)

lemma error_of_create:
  "generated_properties toStr (create_options toStr pp ro r el) ''$ai_is_error'' =
     Some (JBool (isl r))"
  "generated_properties toStr (create_options toStr pp ro r el) ''$ai_error'' =
     (case r of
        Inl err \<Rightarrow> (if truthy err then Some (formatError toStr err) else None)
      | Inr v \<Rightarrow> None)"
  by (simp_all add: generated_is_error generated_error create_options_error split: sum.splits)

lemma error_of_get:
  "generated_properties toStr (get_options toStr pid pp r el) ''$ai_is_error'' =
     Some (JBool (isl r \<or> observed_status r = JStr ''failed''))"
  "generated_properties toStr (get_options toStr pid pp r el) ''$ai_error'' =
     (case r of
        Inl err \<Rightarrow> (if truthy err then Some (formatError toStr err) else None)
      | Inr p \<Rightarrow>
          (if get_prop p ''status'' = JStr ''failed'' \<and> truthy (get_prop p ''error'')
           then Some (formatError toStr (get_prop p ''error'')) else None))"
  by (simp_all add: generated_is_error generated_error get_options_error observed_status_def
      try_catch_def split: sum.splits)

lemma status_of_outcome:
  "httpStatus (run_options m pp ro r el) =
     (case r of Inl err \<Rightarrow> recorded_status err | Inr v \<Rightarrow> Fin 200)"
  "httpStatus (stream_options m pp ro out thrown el) =
     (case thrown of Some err \<Rightarrow> recorded_status err | None \<Rightarrow> Fin 200)"
  "httpStatus (create_options toStr pp ro r el) =
     (case r of Inl err \<Rightarrow> recorded_status err | Inr v \<Rightarrow> Fin 200)"
  "httpStatus (get_options toStr pid pp r el) =
     (case r of Inl err \<Rightarrow> recorded_status err | Inr v \<Rightarrow> Fin 200)"
  by (simp_all add: option_fields_of_failure option_fields_of_success
      catch_httpStatus_recorded split: sum.splits option.splits)

lemma supplies_nothing:
  "\<not> supplies_property plain_call k"
  "\<not> supplies_property private_call k"
  "\<not> supplies_property empty_params k"
  by (simp_all add: supplies_property_def plain_call_def private_call_def untracked_def
      empty_params_def)

lemma formatError_string: "formatError toStr (JStr s) = JStr s"
  by (simp add: formatError_def)

lemma pred_fields:
  "pred status ''status'' = Some (JStr status)"
  "pred status ''error'' = None"
  by (simp_all add: pred_def)

lemma recorded_status_examples:
  "recorded_status rate_limited = Fin 429"
  "recorded_status (JStr s) = Fin 500"
  "recorded_status status_zero = Fin 500"
  "status_in_order status_zero = Some (Fin 0)"
  by (simp_all add: recorded_status_def status_in_order_def numeric_field_def rate_limited_def
      status_zero_def)


section \<open>A parent that works through the instance\<close>

lemma replicate_run_on_wrapper:
  "run_parent toStr (replicate_run m ro) replicate_wrapper =
     (Inr (JStr ''answer''),
      snd (getPrediction toStr
             (snd (createPrediction toStr replicate_wrapper
                     (untracked [''model'' \<mapsto> JStr m, ''input'' \<mapsto> lookup ro ''input''])
                     (Fin 1)))
             ''pred_1'' None (Fin 1)))"
proof -
  let ?c = "createPrediction toStr replicate_wrapper
      (untracked [''model'' \<mapsto> JStr m, ''input'' \<mapsto> lookup ro ''input'']) (Fin 1)"
  let ?g = "getPrediction toStr (snd ?c) ''pred_1'' None (Fin 1)"
  have c: "fst ?c = Inr (JObj False pred_done)"
    by (simp add: create_result replicate_wrapper_fields)
  have g: "fst ?g = Inr (JObj False pred_done)"
    by (simp add: get_result create_fields replicate_wrapper_fields)
  show ?thesis
    using c g
    by (simp add: replicate_run_def split_def Let_def prediction_id_pred_done pred_done_output)
qed

lemma replicate_stream_on_wrapper:
  "consumed toStr (replicate_stream m ro) replicate_wrapper =
     (hello_chunks,
      None,
      snd (createPrediction toStr replicate_wrapper
             (untracked [''model'' \<mapsto> JStr m, ''input'' \<mapsto> lookup ro ''input'',
                         ''stream'' \<mapsto> JBool True])
             (Fin 1)))"
proof -
  let ?c = "createPrediction toStr replicate_wrapper
      (untracked [''model'' \<mapsto> JStr m, ''input'' \<mapsto> lookup ro ''input'',
                  ''stream'' \<mapsto> JBool True]) (Fin 1)"
  have c: "fst ?c = Inr (JObj False pred_done)"
    by (simp add: create_result replicate_wrapper_fields)
  show ?thesis
    using c by (simp add: replicate_stream_def split_def Let_def consumed_hello_stream)
qed

section \<open>The claims\<close>

text \<open>
  C1, evaluated. Over a parent that works through the instance, one \<open>run\<close> hands three events
  to the collector and one stream hands two: the parent's \<open>this.predictions.create\<close> and
  \<open>this.predictions.get\<close> are the tracked methods, each with an event of its own, and the
  event of the operation itself comes last. The run returns the output all the same.
\<close>

theorem run_and_stream_hand_nested_events:
  "fst (PostHogReplicate_run render replicate_wrapper ''owner/model'' plain_call (Fin 3)) =
     Inr (JStr ''answer'') \<and>
   map marks (handed (posthog (snd
     (PostHogReplicate_run render replicate_wrapper ''owner/model'' plain_call (Fin 3))))) =
     [(Some (JBool True), None, None),
      (None, Some (JBool True), None),
      (None, None, Some (JBool False))] \<and>
   map marks (handed (posthog (snd (snd
     (PostHogReplicate_stream render replicate_wrapper ''owner/model'' plain_call (Fin 3)))))) =
     [(Some (JBool True), None, None),
      (None, None, Some (JBool True))]"
proof -
  let ?ro = "[''input'' \<mapsto> JStr ''secret'']"
  let ?c = "createPrediction render replicate_wrapper
      (untracked [''model'' \<mapsto> JStr ''owner/model'', ''input'' \<mapsto> lookup ?ro ''input''])
      (Fin 1)"
  have absent: "predictionTrackingParams (snd ?c) (JStr ''pred_1'') = None"
    by (simp add: create_untracked_stores_nothing replicate_wrapper_fields)
  have run: "map marks (handed (posthog (snd
      (PostHogReplicate_run render replicate_wrapper ''owner/model'' plain_call (Fin 3))))) =
      [(Some (JBool True), None, None),
       (None, Some (JBool True), None),
       (None, None, Some (JBool False))]"
    using absent
    by (simp add: run_handed plain_call_def untracked_fields replicate_wrapper_fields
        replicate_run_on_wrapper get_handed create_handed marks_create_untracked
        marks_get_unstored marks_run_untracked)
  have stream: "map marks (handed (posthog (snd (snd
      (PostHogReplicate_stream render replicate_wrapper ''owner/model'' plain_call (Fin 3)))))) =
      [(Some (JBool True), None, None),
       (None, None, Some (JBool True))]"
    by (simp add: stream_handed plain_call_def untracked_fields replicate_wrapper_fields
        replicate_stream_on_wrapper create_handed marks_create_untracked
        marks_stream_untracked)
  have result: "fst (PostHogReplicate_run render replicate_wrapper ''owner/model'' plain_call
      (Fin 3)) = Inr (JStr ''answer'')"
    by (simp add: run_result plain_call_def untracked_fields replicate_wrapper_fields
        replicate_run_on_wrapper get_fields create_fields)
  show ?thesis
    using result run stream by simp
qed

text \<open>
  C2, as the code has it. The event of a \<open>run\<close> is handed to the collector after whatever
  the parent \<open>run\<close> did on the instance and before the caller gets an answer. When
  \<open>capture\<close> returns, the caller gets what the parent \<open>run\<close> gave: the same value when it
  returned, the same error when it threw. When \<open>capture\<close> throws, the caller gets the value
  it threw.
\<close>

theorem run_result_unless_capture_throws:
  "(let replicateOptions = snd (extractPostHogParams opts);
        parent = run_parent toStr (super_run this m replicateOptions) this;
        own = event_message toStr
                (run_options m (fst (extractPostHogParams opts)) replicateOptions (fst parent) el)
    in handed (posthog (snd (PostHogReplicate_run toStr this m opts el))) =
         handed (posthog (snd parent)) @ [own] \<and>
       fst (PostHogReplicate_run toStr this m opts el) =
         (case refuses (posthog (snd parent)) (handed (posthog (snd parent))) own of
            None \<Rightarrow> fst parent
          | Some e \<Rightarrow> Inl e))"
  unfolding Let_def run_handed run_result emitted_run
  by (simp split: option.splits)

text \<open>
  C2 as stated fails: over a collector whose \<open>capture\<close> throws, the parent \<open>run\<close> returns
  \<open>ok\<close> and the caller gets the collector's error; the event was handed all the same.
\<close>

theorem capture_throw_counterexample:
  "fst (run_parent render
          (super_run refusing_wrapper ''owner/model'' (snd (extractPostHogParams plain_call)))
          refusing_wrapper) = Inr (JStr ''ok'') \<and>
   fst (PostHogReplicate_run render refusing_wrapper ''owner/model'' plain_call (Fin 1)) =
     Inl (JStr ''collector down'') \<and>
   length (handed (posthog (snd
     (PostHogReplicate_run render refusing_wrapper ''owner/model'' plain_call (Fin 1))))) = 1"
proof -
  have parent: "run_parent render (super_run refusing_wrapper m ro) refusing_wrapper =
      (Inr (JStr ''ok''), refusing_wrapper)" for m ro
    by (simp add: refusing_wrapper_def wrapper_run_parent)
  have collector: "refuses (posthog refusing_wrapper) = (\<lambda>_ _. Some (JStr ''collector down''))"
      "handed (posthog refusing_wrapper) = []"
    by (simp_all add: refusing_wrapper_def)
  show ?thesis
    by (simp add: run_result run_handed parent collector)
qed

text \<open>
  C3, as the code has it. When a call supplies privacy mode \<open>true\<close>, the event that \<open>run\<close>, a
  stream, \<open>predictions.create\<close> or \<open>predictions.get\<close> itself hands to the collector, the last
  one of the call, has neither \<open>$ai_input\<close> nor \<open>$ai_output_choices\<close>, whatever the outcome,
  unless the call's own custom properties carry that key: custom properties are merged
  after the privacy check.
\<close>

theorem privacy_mode_hides_input_and_output:
  assumes "slot_read (posthogPrivacyMode opts) = Some True"
    and "k = ''$ai_input'' \<or> k = ''$ai_output_choices''"
    and "\<not> supplies_property opts k"
  shows
    "msg_properties (emitted (snd (PostHogReplicate_run toStr this m opts el))) k = None \<and>
     msg_properties (emitted (snd (snd (PostHogReplicate_stream toStr this m opts el)))) k = None \<and>
     msg_properties (emitted (snd (createPrediction toStr this opts el))) k = None \<and>
     msg_properties (emitted (snd (getPrediction toStr this pid (Some opts) el))) k = None"
proof -
  have run: "event_properties toStr
      (run_options m (fst (extractPostHogParams opts)) ro r el) k = None" for ro r
    using assms
    by (intro privacy_hides) (auto simp add: run_options_fields extract_fields custom_defines_run)
  have stream: "event_properties toStr
      (stream_options m (fst (extractPostHogParams opts)) ro out thrown el) k = None"
    for ro out thrown
    using assms
    by (intro privacy_hides)
      (auto simp add: stream_options_fields extract_fields custom_defines_stream)
  have create: "event_properties toStr
      (create_options toStr (fst (extractPostHogParams opts)) ro r el) k = None" for ro r
    using assms
    by (intro privacy_hides)
      (auto simp add: create_options_fields extract_fields custom_defines_create)
  have get: "event_properties toStr
      (get_options toStr pid (fst (extractPostHogParams opts)) r el) k = None" for r
    using assms
    by (intro privacy_hides) (auto simp add: get_options_fields extract_fields custom_defines_get)
  show ?thesis
    by (simp add: emitted_run emitted_stream emitted_create emitted_get merged_params_Some
        msg_properties_event_message run stream create get)
qed

theorem privacy_mode_hides_input_and_output_witness:
  "slot_read (posthogPrivacyMode private_call) = Some True \<and>
   \<not> supplies_property private_call ''$ai_input'' \<and>
   \<not> supplies_property private_call ''$ai_output_choices'' \<and>
   msg_properties (emitted (snd (PostHogReplicate_run render (wrapper (Inr (JStr ''ok'')) Done)
      ''owner/model'' private_call (Fin 1)))) ''$ai_input'' = None \<and>
   msg_properties (emitted (snd (PostHogReplicate_run render (wrapper (Inr (JStr ''ok'')) Done)
      ''owner/model'' private_call (Fin 1)))) ''$ai_output_choices'' = None \<and>
   msg_properties (emitted (snd (getPrediction render (wrapper (Inr (JObj False pred_done)) Done)
      ''pred_1'' (Some private_call) (Fin 1)))) ''$ai_input'' = None \<and>
   msg_properties (emitted (snd (getPrediction render (wrapper (Inr (JObj False pred_done)) Done)
      ''pred_1'' (Some private_call) (Fin 1)))) ''$ai_output_choices'' = None \<and>
   msg_properties (emitted (snd (getPrediction render (wrapper (Inr (JObj False pred_done)) Done)
      ''pred_1'' (Some plain_call) (Fin 1)))) ''$ai_output_choices'' =
     Some (JArr [JObj False [''role'' \<mapsto> JStr ''assistant'', ''content'' \<mapsto> JStr ''answer'']])"
proof -
  have h1: "slot_read (posthogPrivacyMode private_call) = Some True"
    by (simp add: private_call_def untracked_def)
  have i: "''$ai_input'' = ''$ai_input'' \<or> ''$ai_input'' = ''$ai_output_choices''"
    by simp
  have out: "''$ai_output_choices'' = ''$ai_input'' \<or>
      ''$ai_output_choices'' = ''$ai_output_choices''"
    by simp
  have h3: "\<not> supplies_property private_call k" for k
    by (simp add: private_call_def untracked_def supplies_property_def)
  let ?g = "get_options render ''pred_1'' (fst (extractPostHogParams plain_call))
      (Inr (JObj False pred_done)) (Fin 1)"
  have plain: "\<not> custom_defines ?g ''$ai_output_choices''"
    by (simp add: custom_defines_get plain_call_def untracked_supplies)
  have shown: "msg_properties (emitted (snd (getPrediction render
      (wrapper (Inr (JObj False pred_done)) Done) ''pred_1'' (Some plain_call) (Fin 1))))
      ''$ai_output_choices'' =
      Some (JArr [JObj False [''role'' \<mapsto> JStr ''assistant'', ''content'' \<mapsto> JStr ''answer'']])"
    unfolding emitted_get merged_params_Some msg_properties_event_message wrapper_fields
      get_replicateOptions_def event_properties_generated [OF plain] generated_output
    by (simp add: get_options_fields extract_fields plain_call_def untracked_fields
        get_options_record pred_done_def formatOutput_def)
  show ?thesis
    using h1 h3 shown
      privacy_mode_hides_input_and_output [OF h1 i h3,
        of render "wrapper (Inr (JStr ''ok'')) Done" "''owner/model''" "Fin 1" "''pred_1''"]
      privacy_mode_hides_input_and_output [OF h1 out h3,
        of render "wrapper (Inr (JStr ''ok'')) Done" "''owner/model''" "Fin 1" "''pred_1''"]
      privacy_mode_hides_input_and_output [OF h1 i h3,
        of render "wrapper (Inr (JObj False pred_done)) Done" "''owner/model''" "Fin 1"
           "''pred_1''"]
      privacy_mode_hides_input_and_output [OF h1 out h3,
        of render "wrapper (Inr (JObj False pred_done)) Done" "''owner/model''" "Fin 1"
           "''pred_1''"]
    by blast
qed

text \<open>
  C3 as stated fails. A run with privacy mode on whose custom properties carry \<open>$ai_input\<close>
  emits an event with \<open>$ai_input\<close>. And over a parent that creates its prediction through the
  instance, a run with privacy mode on and no custom properties hands the collector a
  create event first, and that event carries the input: the tracking keys, privacy mode
  among them, are taken out of the options before the parent gets them.
\<close>

theorem privacy_mode_counterexample:
  "slot_read (posthogPrivacyMode private_call_with_custom_input) = Some True \<and>
   msg_properties (emitted (snd (PostHogReplicate_run render (wrapper (Inr (JStr ''ok'')) Done)
      ''owner/model'' private_call_with_custom_input (Fin 1)))) ''$ai_input'' =
     Some (JStr ''secret'') \<and>
   slot_read (posthogPrivacyMode private_call) = Some True \<and>
   slot_read (posthogProperties private_call) = None \<and>
   msg_properties (hd (handed (posthog (snd (PostHogReplicate_run render replicate_wrapper
      ''owner/model'' private_call (Fin 3)))))) ''$ai_input'' =
     Some (JArr [JObj False [''role'' \<mapsto> JStr ''user'', ''content'' \<mapsto> JStr ''secret'']])"
proof -
  have custom: "msg_properties (emitted (snd (PostHogReplicate_run render
      (wrapper (Inr (JStr ''ok'')) Done) ''owner/model'' private_call_with_custom_input
      (Fin 1)))) ''$ai_input'' = Some (JStr ''secret'')"
    by (simp add: emitted_run msg_properties_event_message event_properties_def add_custom_apply
        run_options_fields extract_fields private_call_with_custom_input_def private_call_def
        untracked_def)
  have priv: "slot_read (posthogPrivacyMode private_call) = Some True"
      "slot_read (posthogProperties private_call) = None"
      "snd (extractPostHogParams private_call) = [''input'' \<mapsto> JStr ''secret'']"
    by (simp_all add: private_call_def untracked_def extractPostHogParams_def)
  let ?inner = "untracked [''model'' \<mapsto> JStr ''owner/model'',
      ''input'' \<mapsto> lookup [''input'' \<mapsto> JStr ''secret''] ''input'']"
  let ?e = "create_options render (fst (extractPostHogParams ?inner))
      (snd (extractPostHogParams ?inner))
      (originalPredictionsCreate replicate_wrapper (snd (extractPostHogParams ?inner))) (Fin 1)"
  have first: "hd (handed (posthog (snd (PostHogReplicate_run render replicate_wrapper
      ''owner/model'' private_call (Fin 3))))) = event_message render ?e"
    by (simp add: run_handed priv replicate_wrapper_fields replicate_run_on_wrapper
        get_handed create_handed)
  have nocustom: "\<not> custom_defines ?e ''$ai_input''"
    by (simp add: custom_defines_create untracked_supplies)
  have nested: "msg_properties (event_message render ?e) ''$ai_input'' =
      Some (JArr [JObj False [''role'' \<mapsto> JStr ''user'', ''content'' \<mapsto> JStr ''secret'']])"
    unfolding msg_properties_event_message event_properties_generated [OF nocustom]
      generated_input
    by (simp add: create_options_fields extract_fields untracked_fields input_fields
        lookup_def formatInput_def)
  have pc: "slot_read (posthogPrivacyMode private_call_with_custom_input) = Some True"
    by (simp add: private_call_with_custom_input_def private_call_def untracked_def)
  show ?thesis
    using pc custom priv(1,2) nested by (simp add: first)
qed

text \<open>
  C4, as the code has it. Take the event that \<open>run\<close>, a stream, \<open>predictions.create\<close> or
  \<open>predictions.get\<close> itself hands to the collector, for a call whose custom properties carry
  neither \<open>$ai_error\<close> nor \<open>$ai_is_error\<close>; those of a get are the ones of the parameters it
  works from, its own merged with the stored ones. Its \<open>$ai_is_error\<close> is \<open>true\<close> exactly when the
  underlying call threw or, for \<open>predictions.get\<close>, the fetched record has the status
  \<open>failed\<close>. Its \<open>$ai_error\<close> is present exactly when that flag is \<open>true\<close> and the captured
  error is truthy, and it is then the formatted error; the captured error is the value
  thrown or, for a fetched record with status \<open>failed\<close>, the record's \<open>error\<close> field. So an
  event with the flag \<open>true\<close> and a captured error that is \<open>undefined\<close>, \<open>null\<close>, \<open>false\<close>,
  \<open>0\<close>, \<open>NaN\<close> or the empty string has no \<open>$ai_error\<close>.
\<close>

theorem error_detail_iff_flag_and_truthy_error:
  assumes "\<not> supplies_property opts ''$ai_error''"
    and "\<not> supplies_property opts ''$ai_is_error''"
    and "\<not> supplies_property (merged_params this pid gopts) ''$ai_error''"
    and "\<not> supplies_property (merged_params this pid gopts) ''$ai_is_error''"
  shows
    "(let detail = (\<lambda>captured. if truthy captured then Some (formatError toStr captured)
                               else None);
          replicateOptions = snd (extractPostHogParams opts);
          ran = fst (run_parent toStr (super_run this m replicateOptions) this);
          thrown = fst (snd (consumed toStr (super_stream this m replicateOptions) this));
          created = originalPredictionsCreate this replicateOptions;
          fetched = originalPredictionsGet this pid (get_replicateOptions gopts);
          of_run = msg_properties (emitted (snd (PostHogReplicate_run toStr this m opts el)));
          of_stream =
            msg_properties (emitted (snd (snd (PostHogReplicate_stream toStr this m opts el))));
          of_create = msg_properties (emitted (snd (createPrediction toStr this opts el)));
          of_get = msg_properties (emitted (snd (getPrediction toStr this pid gopts el)))
      in of_run ''$ai_is_error'' = Some (JBool (isl ran)) \<and>
         of_run ''$ai_error'' = (case ran of Inl err \<Rightarrow> detail err | Inr v \<Rightarrow> None) \<and>
         of_stream ''$ai_is_error'' = Some (JBool (thrown \<noteq> None)) \<and>
         of_stream ''$ai_error'' = (case thrown of Some err \<Rightarrow> detail err | None \<Rightarrow> None) \<and>
         of_create ''$ai_is_error'' = Some (JBool (isl created)) \<and>
         of_create ''$ai_error'' = (case created of Inl err \<Rightarrow> detail err | Inr v \<Rightarrow> None) \<and>
         of_get ''$ai_is_error'' =
           Some (JBool (isl fetched \<or> observed_status fetched = JStr ''failed'')) \<and>
         of_get ''$ai_error'' =
           (case fetched of
              Inl err \<Rightarrow> detail err
            | Inr p \<Rightarrow> (if get_prop p ''status'' = JStr ''failed''
                        then detail (get_prop p ''error'') else None)))"
proof -
  note own = own_event_run [OF assms(1)] own_event_run [OF assms(2)]
    own_event_stream [OF assms(1)] own_event_stream [OF assms(2)]
    own_event_create [OF assms(1)] own_event_create [OF assms(2)]
    own_event_get [OF assms(3)] own_event_get [OF assms(4)]
  show ?thesis
    unfolding Let_def
    by (simp add: own error_of_run error_of_stream error_of_create error_of_get
        split: sum.splits option.splits)
qed

theorem error_detail_iff_flag_and_truthy_error_witness:
  "\<not> supplies_property plain_call ''$ai_error'' \<and>
   \<not> supplies_property plain_call ''$ai_is_error'' \<and>
   \<not> supplies_property
        (merged_params (wrapper (Inl (JStr ''boom'')) (Throw (JStr ''boom''))) ''pred_1'' None)
        ''$ai_error'' \<and>
   \<not> supplies_property
        (merged_params (wrapper (Inl (JStr ''boom'')) (Throw (JStr ''boom''))) ''pred_1'' None)
        ''$ai_is_error'' \<and>
   msg_properties (emitted (snd (PostHogReplicate_run render
      (wrapper (Inl (JStr ''boom'')) (Throw (JStr ''boom''))) ''owner/model'' plain_call
      (Fin 1)))) ''$ai_is_error'' = Some (JBool True) \<and>
   msg_properties (emitted (snd (PostHogReplicate_run render
      (wrapper (Inl (JStr ''boom'')) (Throw (JStr ''boom''))) ''owner/model'' plain_call
      (Fin 1)))) ''$ai_error'' = Some (JStr ''boom'') \<and>
   msg_properties (emitted (snd (snd (PostHogReplicate_stream render
      (wrapper (Inl (JStr ''boom'')) (Throw (JStr ''boom''))) ''owner/model'' plain_call
      (Fin 1))))) ''$ai_is_error'' = Some (JBool True) \<and>
   msg_properties (emitted (snd (snd (PostHogReplicate_stream render
      (wrapper (Inl (JStr ''boom'')) (Throw (JStr ''boom''))) ''owner/model'' plain_call
      (Fin 1))))) ''$ai_error'' = Some (JStr ''boom'') \<and>
   msg_properties (emitted (snd (createPrediction render
      (wrapper (Inl (JStr ''boom'')) (Throw (JStr ''boom''))) plain_call (Fin 1))))
      ''$ai_error'' = Some (JStr ''boom'') \<and>
   msg_properties (emitted (snd (getPrediction render
      (wrapper (Inl (JStr ''boom'')) (Throw (JStr ''boom''))) ''pred_1'' None (Fin 1))))
      ''$ai_is_error'' = Some (JBool True) \<and>
   msg_properties (emitted (snd (getPrediction render
      (wrapper (Inl (JStr ''boom'')) (Throw (JStr ''boom''))) ''pred_1'' None (Fin 1))))
      ''$ai_error'' = Some (JStr ''boom'')"
proof -
  let ?w = "wrapper (Inl (JStr ''boom'')) (Throw (JStr ''boom''))"
  have stored: "merged_params ?w ''pred_1'' None = empty_params"
    by (simp add: merged_params_None wrapper_fields)
  have h: "\<not> supplies_property plain_call ''$ai_error''"
      "\<not> supplies_property plain_call ''$ai_is_error''"
      "\<not> supplies_property (merged_params ?w ''pred_1'' None) ''$ai_error''"
      "\<not> supplies_property (merged_params ?w ''pred_1'' None) ''$ai_is_error''"
    by (simp_all add: stored supplies_nothing)
  show ?thesis
    using h error_detail_iff_flag_and_truthy_error [OF h,
        where toStr = render and m = "''owner/model''" and el = "Fin 1"]
    by (simp add: Let_def wrapper_run_parent wrapper_fields formatError_string)
qed

text \<open>
  C4 as stated fails, in both directions. A get that observes the status \<open>failed\<close> on a
  record with no \<open>error\<close> field, and a run that throws the empty string, emit an event
  with the flag \<open>true\<close> and no \<open>$ai_error\<close>. A run that succeeds, with custom properties that
  carry \<open>$ai_error\<close>, emits an event with \<open>$ai_error\<close> and the flag \<open>false\<close>; a run that
  throws, with custom properties that carry the flag \<open>false\<close>, does so too.
\<close>

theorem error_detail_counterexample:
  "msg_properties (emitted (snd (getPrediction render
      (wrapper (Inr (JObj False (pred ''failed''))) Done) ''pred_1'' None (Fin 1))))
      ''$ai_is_error'' = Some (JBool True) \<and>
   msg_properties (emitted (snd (getPrediction render
      (wrapper (Inr (JObj False (pred ''failed''))) Done) ''pred_1'' None (Fin 1))))
      ''$ai_error'' = None \<and>
   msg_properties (emitted (snd (PostHogReplicate_run render
      (wrapper (Inl (JStr '''')) Done) ''owner/model'' plain_call (Fin 1))))
      ''$ai_is_error'' = Some (JBool True) \<and>
   msg_properties (emitted (snd (PostHogReplicate_run render
      (wrapper (Inl (JStr '''')) Done) ''owner/model'' plain_call (Fin 1))))
      ''$ai_error'' = None \<and>
   msg_properties (emitted (snd (PostHogReplicate_run render
      (wrapper (Inr (JStr ''ok'')) Done) ''owner/model'' call_with_custom_error (Fin 1))))
      ''$ai_is_error'' = Some (JBool False) \<and>
   msg_properties (emitted (snd (PostHogReplicate_run render
      (wrapper (Inr (JStr ''ok'')) Done) ''owner/model'' call_with_custom_error (Fin 1))))
      ''$ai_error'' = Some (JStr ''none'') \<and>
   msg_properties (emitted (snd (PostHogReplicate_run render
      (wrapper (Inl (JStr ''boom'')) Done) ''owner/model'' call_with_custom_flag (Fin 1))))
      ''$ai_is_error'' = Some (JBool False) \<and>
   msg_properties (emitted (snd (PostHogReplicate_run render
      (wrapper (Inl (JStr ''boom'')) Done) ''owner/model'' call_with_custom_flag (Fin 1))))
      ''$ai_error'' = Some (JStr ''boom'')"
proof -
  let ?failed = "wrapper (Inr (JObj False (pred ''failed''))) Done"
  have stored: "merged_params ?failed ''pred_1'' None = empty_params"
    by (simp add: merged_params_None wrapper_fields)
  have get: "msg_properties (emitted (snd (getPrediction render ?failed ''pred_1'' None (Fin 1))))
        ''$ai_is_error'' = Some (JBool True)"
      "msg_properties (emitted (snd (getPrediction render ?failed ''pred_1'' None (Fin 1))))
        ''$ai_error'' = None"
    by (simp_all add: own_event_get stored supplies_nothing error_of_get wrapper_fields
        observed_status_def try_catch_def pred_fields)
  have empty: "msg_properties (emitted (snd (PostHogReplicate_run render
        (wrapper (Inl (JStr '''')) Done) ''owner/model'' plain_call (Fin 1))))
        ''$ai_is_error'' = Some (JBool True)"
      "msg_properties (emitted (snd (PostHogReplicate_run render
        (wrapper (Inl (JStr '''')) Done) ''owner/model'' plain_call (Fin 1))))
        ''$ai_error'' = None"
    by (simp_all add: own_event_run supplies_nothing error_of_run wrapper_run_parent)
  have custom_error: "msg_properties (emitted (snd (PostHogReplicate_run render
        (wrapper (Inr (JStr ''ok'')) Done) ''owner/model'' call_with_custom_error (Fin 1))))
        ''$ai_is_error'' = Some (JBool False)"
      "msg_properties (emitted (snd (PostHogReplicate_run render
        (wrapper (Inr (JStr ''ok'')) Done) ''owner/model'' call_with_custom_error (Fin 1))))
        ''$ai_error'' = Some (JStr ''none'')"
    by (simp_all add: emitted_run msg_properties_event_message event_properties_def
        add_custom_apply run_options_fields extract_fields call_with_custom_error_def
        untracked_def generated_is_error run_options_error wrapper_run_parent)
  have custom_flag: "msg_properties (emitted (snd (PostHogReplicate_run render
        (wrapper (Inl (JStr ''boom'')) Done) ''owner/model'' call_with_custom_flag (Fin 1))))
        ''$ai_is_error'' = Some (JBool False)"
      "msg_properties (emitted (snd (PostHogReplicate_run render
        (wrapper (Inl (JStr ''boom'')) Done) ''owner/model'' call_with_custom_flag (Fin 1))))
        ''$ai_error'' = Some (JStr ''boom'')"
    by (simp_all add: emitted_run msg_properties_event_message event_properties_def
        add_custom_apply run_options_fields extract_fields call_with_custom_flag_def
        untracked_def generated_error run_options_error wrapper_run_parent formatError_string)
  show ?thesis
    using get empty custom_error custom_flag by simp
qed

text \<open>
  C5, as the code has it. \<open>extractHttpStatus\<close> finds the status of a thrown value in the
  order the claim gives: a numeric \<open>status\<close> field, then a numeric \<open>statusCode\<close> field, then
  the numeric \<open>status\<close> field of a nested response object. In the event that \<open>run\<close>, a stream,
  \<open>predictions.create\<close> or \<open>predictions.get\<close> itself hands to the collector, for a call whose
  custom properties do not carry \<open>$ai_http_status\<close> (those of a get are the ones of the
  parameters it works from), that key holds 200 when the underlying call did not throw; when
  it threw, the key holds the first status found, and 500 when none is found or when the one
  found is 0 or \<open>NaN\<close>.
\<close>

theorem recorded_status_first_found_or_500:
  assumes "\<not> supplies_property opts ''$ai_http_status''"
    and "\<not> supplies_property (merged_params this pid gopts) ''$ai_http_status''"
  shows
    "extractHttpStatus thrown_value = status_in_order thrown_value \<and>
     (let replicateOptions = snd (extractPostHogParams opts);
          ran = fst (run_parent toStr (super_run this m replicateOptions) this);
          thrown = fst (snd (consumed toStr (super_stream this m replicateOptions) this));
          created = originalPredictionsCreate this replicateOptions;
          fetched = originalPredictionsGet this pid (get_replicateOptions gopts)
      in msg_properties (emitted (snd (PostHogReplicate_run toStr this m opts el)))
           ''$ai_http_status'' =
           Some (JNum (case ran of Inl err \<Rightarrow> recorded_status err | Inr v \<Rightarrow> Fin 200)) \<and>
         msg_properties (emitted (snd (snd (PostHogReplicate_stream toStr this m opts el))))
           ''$ai_http_status'' =
           Some (JNum (case thrown of Some err \<Rightarrow> recorded_status err | None \<Rightarrow> Fin 200)) \<and>
         msg_properties (emitted (snd (createPrediction toStr this opts el)))
           ''$ai_http_status'' =
           Some (JNum (case created of Inl err \<Rightarrow> recorded_status err | Inr v \<Rightarrow> Fin 200)) \<and>
         msg_properties (emitted (snd (getPrediction toStr this pid gopts el)))
           ''$ai_http_status'' =
           Some (JNum (case fetched of Inl err \<Rightarrow> recorded_status err | Inr v \<Rightarrow> Fin 200)))"
proof -
  note own = own_event_run [OF assms(1)] own_event_stream [OF assms(1)]
    own_event_create [OF assms(1)] own_event_get [OF assms(2)]
  show ?thesis
    unfolding Let_def
    by (simp add: extractHttpStatus_in_order own generated_http_status status_of_outcome)
qed

theorem recorded_status_first_found_or_500_witness:
  "\<not> supplies_property plain_call ''$ai_http_status'' \<and>
   \<not> supplies_property
        (merged_params (wrapper (Inl rate_limited) (Throw rate_limited)) ''pred_1'' None)
        ''$ai_http_status'' \<and>
   extractHttpStatus rate_limited = Some (Fin 429) \<and>
   msg_properties (emitted (snd (PostHogReplicate_run render
      (wrapper (Inl rate_limited) (Throw rate_limited)) ''owner/model'' plain_call (Fin 1))))
      ''$ai_http_status'' = Some (JNum (Fin 429)) \<and>
   msg_properties (emitted (snd (snd (PostHogReplicate_stream render
      (wrapper (Inl rate_limited) (Throw rate_limited)) ''owner/model'' plain_call (Fin 1)))))
      ''$ai_http_status'' = Some (JNum (Fin 429)) \<and>
   msg_properties (emitted (snd (createPrediction render
      (wrapper (Inl rate_limited) (Throw rate_limited)) plain_call (Fin 1))))
      ''$ai_http_status'' = Some (JNum (Fin 429)) \<and>
   msg_properties (emitted (snd (getPrediction render
      (wrapper (Inl rate_limited) (Throw rate_limited)) ''pred_1'' None (Fin 1))))
      ''$ai_http_status'' = Some (JNum (Fin 429)) \<and>
   \<not> supplies_property
        (merged_params (wrapper (Inl (JStr ''boom'')) Done) ''pred_1'' None)
        ''$ai_http_status'' \<and>
   msg_properties (emitted (snd (PostHogReplicate_run render
      (wrapper (Inl (JStr ''boom'')) Done) ''owner/model'' plain_call (Fin 1))))
      ''$ai_http_status'' = Some (JNum (Fin 500)) \<and>
   msg_properties (emitted (snd (snd (PostHogReplicate_stream render
      (wrapper (Inl (JStr ''boom'')) Done) ''owner/model'' plain_call (Fin 1)))))
      ''$ai_http_status'' = Some (JNum (Fin 200))"
proof -
  let ?limited = "wrapper (Inl rate_limited) (Throw rate_limited)"
  let ?boom = "wrapper (Inl (JStr ''boom'')) Done"
  have stored: "merged_params ?limited ''pred_1'' None = empty_params"
      "merged_params ?boom ''pred_1'' None = empty_params"
    by (simp_all add: merged_params_None wrapper_fields)
  have h1: "\<not> supplies_property plain_call ''$ai_http_status''"
    by (simp add: supplies_nothing)
  have h2: "\<not> supplies_property (merged_params ?limited ''pred_1'' None) ''$ai_http_status''"
    by (simp add: stored supplies_nothing)
  have h3: "\<not> supplies_property (merged_params ?boom ''pred_1'' None) ''$ai_http_status''"
    by (simp add: stored supplies_nothing)
  have found: "status_in_order rate_limited = Some (Fin 429)"
    by (simp add: status_in_order_def numeric_field_def rate_limited_def)
  show ?thesis
    using h1 h2 h3 found
      recorded_status_first_found_or_500 [OF h1 h2,
        where toStr = render and m = "''owner/model''" and el = "Fin 1"
          and thrown_value = rate_limited]
      recorded_status_first_found_or_500 [OF h1 h3,
        where toStr = render and m = "''owner/model''" and el = "Fin 1"
          and thrown_value = rate_limited]
    by (simp add: Let_def wrapper_run_parent wrapper_fields recorded_status_examples)
qed

text \<open>
  C5 as stated fails. A run that throws an object whose \<open>status\<close> is the number 0 has a
  status found, the first in the order, and its event records 500. And a run that throws a
  rate-limit error, with custom properties that carry \<open>$ai_http_status\<close>, records the
  caller's 200.
\<close>

theorem recorded_status_counterexample:
  "extractHttpStatus status_zero = Some (Fin 0) \<and>
   msg_properties (emitted (snd (PostHogReplicate_run render
      (wrapper (Inl status_zero) Done) ''owner/model'' plain_call (Fin 1))))
      ''$ai_http_status'' = Some (JNum (Fin 500)) \<and>
   extractHttpStatus rate_limited = Some (Fin 429) \<and>
   msg_properties (emitted (snd (PostHogReplicate_run render
      (wrapper (Inl rate_limited) Done) ''owner/model'' call_with_custom_status (Fin 1))))
      ''$ai_http_status'' = Some (JNum (Fin 200))"
proof -
  have zero: "extractHttpStatus status_zero = Some (Fin 0)"
    by (simp add: extractHttpStatus_in_order recorded_status_examples)
  have limited: "extractHttpStatus rate_limited = Some (Fin 429)"
    by (simp add: extractHttpStatus_in_order status_in_order_def numeric_field_def
        rate_limited_def)
  have recorded: "msg_properties (emitted (snd (PostHogReplicate_run render
      (wrapper (Inl status_zero) Done) ''owner/model'' plain_call (Fin 1))))
      ''$ai_http_status'' = Some (JNum (Fin 500))"
    by (simp add: own_event_run supplies_nothing generated_http_status status_of_outcome
        wrapper_run_parent recorded_status_examples)
  have custom: "msg_properties (emitted (snd (PostHogReplicate_run render
      (wrapper (Inl rate_limited) Done) ''owner/model'' call_with_custom_status (Fin 1))))
      ''$ai_http_status'' = Some (JNum (Fin 200))"
    by (simp add: emitted_run msg_properties_event_message event_properties_def
        add_custom_apply run_options_fields extract_fields call_with_custom_status_def
        untracked_def)
  show ?thesis
    using zero limited recorded custom by simp
qed




text \<open>
  C7, evaluated. A create call names the user \<open>user_1\<close>; its event goes out under that id
  and the parameters are stored under the id of the prediction. A later get for that
  prediction that supplies a trace id and no distinct id emits its event under \<open>anonymous\<close>:
  the stored distinct id is lost, because the get's own parameters carry every tracking key,
  the missing ones holding \<open>undefined\<close>, and the spread copies them all. A get with no options
  object at all emits its event under \<open>user_1\<close>.
\<close>

theorem get_with_options_forgets_create_params:
  "predictionTrackingParams after_create (JStr ''pred_1'') =
     Some (fst (extractPostHogParams create_call)) \<and>
   msg_distinctId (emitted after_create) = ''user_1'' \<and>
   slot_read (posthogDistinctId get_call) = None \<and>
   msg_distinctId (emitted (snd (getPrediction render
      (polled ''processing'')
      ''pred_1'' (Some get_call) (Fin 2)))) = ''anonymous'' \<and>
   msg_distinctId (emitted (snd (getPrediction render
      (polled ''processing'')
      ''pred_1'' None (Fin 2)))) = ''user_1''"
proof -
  have a: "msg_distinctId (emitted after_create) = ''user_1''"
    by (simp add: after_create_def emitted_create msg_distinctId_event_message
        create_options_fields extract_fields create_call_def untracked_def)
  have b: "slot_read (posthogDistinctId get_call) = None"
    by (simp add: get_call_def untracked_def)
  show ?thesis
    using a b after_create_stored
    by (simp add: polled_def emitted_get msg_distinctId_event_message get_options_fields
        merged_params_Some merged_params_None extract_fields create_call_def untracked_def)
qed



text \<open>
  C9, as the code has it. A key of the call's custom properties reaches the event with the
  caller's value in \<open>run\<close> and in a stream, whatever the key. In \<open>predictions.create\<close> it does
  unless the key is \<open>$ai_async_prediction\<close>, which is always \<open>true\<close>; in \<open>predictions.get\<close> it
  does unless the key is \<open>$ai_prediction_status\<close>, \<open>$ai_prediction_get\<close> or
  \<open>$ai_prediction_completed\<close>, which are always the observed status, \<open>true\<close> and the
  completed flag: the wrappers write these keys after spreading the caller's properties.
\<close>

theorem custom_properties_win_except_markers:
  assumes "slot_read (posthogProperties opts) = Some c" and "c k = Some v"
  shows
    "msg_properties (emitted (snd (PostHogReplicate_run toStr this m opts el))) k = Some v \<and>
     msg_properties (emitted (snd (snd (PostHogReplicate_stream toStr this m opts el)))) k = Some v \<and>
     msg_properties (emitted (snd (createPrediction toStr this opts el))) k =
       (if k = ''$ai_async_prediction'' then Some (JBool True) else Some v) \<and>
     msg_properties (emitted (snd (getPrediction toStr this pid (Some opts) el))) k =
       (if k = ''$ai_prediction_completed''
        then Some (JBool (isCompleted (observed_status
               (originalPredictionsGet this pid (get_replicateOptions (Some opts))))))
        else if k = ''$ai_prediction_get'' then Some (JBool True)
        else if k = ''$ai_prediction_status''
        then Some (observed_status
               (originalPredictionsGet this pid (get_replicateOptions (Some opts))))
        else Some v)"
proof -
  have sp: "spread_properties (fst (extractPostHogParams opts)) = c"
    using assms(1) by (simp add: spread_properties_def extract_fields)
  have run: "customProperties (run_options m (fst (extractPostHogParams opts)) ro r el) = Some c"
    for ro r
    using assms(1) by (simp add: run_options_fields extract_fields)
  have stream: "customProperties
      (stream_options m (fst (extractPostHogParams opts)) ro out thrown el) = Some c"
    for ro out thrown
    using assms(1) by (simp add: stream_options_fields extract_fields)
  let ?create = "create_options toStr (fst (extractPostHogParams opts))
      (snd (extractPostHogParams opts))
      (originalPredictionsCreate this (snd (extractPostHogParams opts))) el"
  let ?r = "originalPredictionsGet this pid (get_replicateOptions (Some opts))"
  let ?get = "get_options toStr pid (fst (extractPostHogParams opts)) ?r el"
  have c1: "(c(''$ai_async_prediction'' \<mapsto> JBool True)) k =
              (if k = ''$ai_async_prediction'' then Some (JBool True) else Some v)"
    using assms(2) by simp
  have create: "event_properties toStr ?create k =
      (if k = ''$ai_async_prediction'' then Some (JBool True) else Some v)"
    unfolding event_properties_apply [OF create_options_fields(2)] sp c1
    by simp
  have c2: "(c(''$ai_prediction_status'' \<mapsto> observed_status ?r,
               ''$ai_prediction_get'' \<mapsto> JBool True,
               ''$ai_prediction_completed'' \<mapsto> JBool (isCompleted (observed_status ?r)))) k =
       (if k = ''$ai_prediction_completed'' then Some (JBool (isCompleted (observed_status ?r)))
        else if k = ''$ai_prediction_get'' then Some (JBool True)
        else if k = ''$ai_prediction_status'' then Some (observed_status ?r)
        else Some v)"
    using assms(2) by simp
  have get: "event_properties toStr ?get k =
       (if k = ''$ai_prediction_completed'' then Some (JBool (isCompleted (observed_status ?r)))
        else if k = ''$ai_prediction_get'' then Some (JBool True)
        else if k = ''$ai_prediction_status'' then Some (observed_status ?r)
        else Some v)"
    unfolding event_properties_apply [OF get_options_fields(2)] sp
      observed_status_def [symmetric] c2
    by simp
  show ?thesis
    unfolding emitted_run emitted_stream emitted_create emitted_get merged_params_Some
      msg_properties_event_message create get
    using assms(2)
    by (simp add: event_properties_custom [OF run] event_properties_custom [OF stream])
qed

theorem custom_properties_win_except_markers_witness:
  "slot_read (posthogProperties call_with_span_name) =
     Some [''$ai_span_name'' \<mapsto> JStr ''summarise''] \<and>
   msg_properties (emitted (snd (createPrediction render
      (wrapper (Inr (JObj False (pred ''starting''))) Done) call_with_span_name (Fin 1))))
      ''$ai_span_name'' = Some (JStr ''summarise'')"
proof -
  have h: "slot_read (posthogProperties call_with_span_name) =
             Some [''$ai_span_name'' \<mapsto> JStr ''summarise'']"
    by (simp add: call_with_span_name_def untracked_def)
  have k: "[''$ai_span_name'' \<mapsto> JStr ''summarise''] ''$ai_span_name'' = Some (JStr ''summarise'')"
    by simp
  show ?thesis
    using h custom_properties_win_except_markers [OF h k, of render
        "wrapper (Inr (JObj False (pred ''starting''))) Done" "''owner/model''" "Fin 1" "''pred_1''"]
    by simp
qed

text \<open>
  C9 as stated fails: a create call whose custom properties set \<open>$ai_async_prediction\<close> to
  \<open>false\<close> emits an event in which it is \<open>true\<close>.
\<close>

theorem custom_marker_counterexample:
  "slot_read (posthogProperties call_with_custom_marker) =
     Some [''$ai_async_prediction'' \<mapsto> JBool False] \<and>
   msg_properties (emitted (snd (createPrediction render
      (wrapper (Inr (JObj False (pred ''starting''))) Done) call_with_custom_marker (Fin 1))))
      ''$ai_async_prediction'' = Some (JBool True)"
  by (simp add: emitted_create msg_properties_event_message
      event_properties_apply [OF create_options_fields(2)]
      call_with_custom_marker_def untracked_def)

text \<open>
  C10. An empty distinct id is treated as a missing one: the event goes out under the
  distinct id \<open>anonymous\<close>, and it is the same event as with no distinct id at all.
\<close>

theorem empty_distinct_id_is_anonymous:
  "msg_distinctId (event_message toStr (options\<lparr>distinctId := Some ''''\<rparr>)) = ''anonymous'' \<and>
   captureGeneration toStr ph (options\<lparr>distinctId := Some ''''\<rparr>) =
     captureGeneration toStr ph (options\<lparr>distinctId := None\<rparr>) \<and>
   msg_distinctId (emitted (snd (PostHogReplicate_run toStr this m
       (opts\<lparr>posthogDistinctId := Own (Some '''')\<rparr>) el))) = ''anonymous''"
  by (simp add: event_message_def event_properties_distinctId captureGeneration_def
      emitted_run run_options_def extractPostHogParams_def split_def Let_def)

end
